theory Spec2Isabelle
  imports Complex_Main
begin

section \<open>Numbers and vectors\<close>

text \<open>
  The scene component (the \<open>SolarSystem\<close> class of the frontend) computes with JavaScript
  numbers. They are modelled as real numbers: every statement below is about the arithmetic the
  code writes down, without rounding, \<open>NaN\<close> or infinities. Where the source divides, the
  divisor is shown to be nonzero before the quotient is used.

  \<open>Vector3\<close> is the three.js vector; the operations below are the ones the component calls,
  with the meaning three.js gives them (\<open>normalize\<close> divides by \<open>length() || 1\<close>, so the zero
  vector stays the zero vector).
\<close>

datatype Vector3 = Vector3 (vx: real) (vy: real) (vz: real)

definition v3_length :: "Vector3 \<Rightarrow> real" where
  "v3_length v = sqrt (vx v * vx v + vy v * vy v + vz v * vz v)"

definition v3_sub :: "Vector3 \<Rightarrow> Vector3 \<Rightarrow> Vector3" where
  "v3_sub u v = Vector3 (vx u - vx v) (vy u - vy v) (vz u - vz v)"

definition v3_multiplyScalar :: "Vector3 \<Rightarrow> real \<Rightarrow> Vector3" where
  "v3_multiplyScalar v s = Vector3 (vx v * s) (vy v * s) (vz v * s)"

definition v3_divideScalar :: "Vector3 \<Rightarrow> real \<Rightarrow> Vector3" where
  "v3_divideScalar v s = v3_multiplyScalar v (1 / s)"

definition v3_normalize :: "Vector3 \<Rightarrow> Vector3" where
  "v3_normalize v = v3_divideScalar v (if v3_length v = 0 then 1 else v3_length v)"

definition v3_addScaledVector :: "Vector3 \<Rightarrow> Vector3 \<Rightarrow> real \<Rightarrow> Vector3" where
  "v3_addScaledVector u v s = Vector3 (vx u + vx v * s) (vy u + vy v * s) (vz u + vz v * s)"

definition v3_distanceTo :: "Vector3 \<Rightarrow> Vector3 \<Rightarrow> real" where
  "v3_distanceTo u v =
     (let dx = vx u - vx v; dy = vy u - vy v; dz = vz u - vz v
      in sqrt (dx * dx + dy * dy + dz * dz))"

definition v3_lerpVectors :: "Vector3 \<Rightarrow> Vector3 \<Rightarrow> real \<Rightarrow> Vector3" where
  "v3_lerpVectors v1 v2 alpha =
     Vector3 (vx v1 + (vx v2 - vx v1) * alpha)
             (vy v1 + (vy v2 - vy v1) * alpha)
             (vz v1 + (vz v2 - vz v1) * alpha)"


section \<open>Kepler solver and orbit polyline\<close>

text \<open>
  \<open>solveKepler\<close>: the \<open>for\<close> loop is \<open>keplerLoop\<close>, which runs the given number of Newton
  updates on \<open>E\<close>; \<open>keplerLoop k e M M\<close> is the value of \<open>E\<close> after \<open>k\<close> rounds, and the
  divisor of round \<open>k\<close> is \<open>1 - e * cos (keplerLoop k e M M)\<close>.
\<close>

definition iters :: "real \<Rightarrow> nat" where
  "iters e = (if e > 0.9 then 15 else 5)"

fun keplerLoop :: "nat \<Rightarrow> real \<Rightarrow> real \<Rightarrow> real \<Rightarrow> real" where
  "keplerLoop 0 e meanAnomaly E = E"
| "keplerLoop (Suc i) e meanAnomaly E =
     keplerLoop i e meanAnomaly (E - (E - e * sin E - meanAnomaly) / (1 - e * cos E))"

definition solveKepler ::
  "real \<Rightarrow> real \<Rightarrow> real \<Rightarrow> real \<Rightarrow> real \<Rightarrow> real \<Rightarrow> real \<Rightarrow> real \<Rightarrow> Vector3" where
  "solveKepler meanAnomaly a b e cosNode sinNode cosInc sinInc =
     (let E = keplerLoop (iters e) e meanAnomaly meanAnomaly;
          xOrb = a * (cos E - e);
          yOrb = b * sin E
      in Vector3 (cosNode * xOrb - sinNode * cosInc * yOrb)
                 (sinInc * yOrb)
                 (sinNode * xOrb + cosNode * cosInc * yOrb))"

text \<open>The eccentric anomaly the solver ends with, and the orbital-plane point it forms from it
  (the locals \<open>E\<close> and \<open>(xOrb, yOrb)\<close> of \<open>solveKepler\<close>).\<close>

definition solveKepler_E :: "real \<Rightarrow> real \<Rightarrow> real" where
  "solveKepler_E meanAnomaly e = keplerLoop (iters e) e meanAnomaly meanAnomaly"

definition solveKepler_orb :: "real \<Rightarrow> real \<Rightarrow> real \<Rightarrow> real \<Rightarrow> real \<times> real" where
  "solveKepler_orb meanAnomaly a b e =
     (let E = solveKepler_E meanAnomaly e in (a * (cos E - e), b * sin E))"

text \<open>The statements after the loop of \<open>solveKepler\<close>, as a function of the value of \<open>E\<close>.\<close>

definition solveKepler_point ::
  "real \<Rightarrow> real \<Rightarrow> real \<Rightarrow> real \<Rightarrow> real \<Rightarrow> real \<Rightarrow> real \<Rightarrow> real \<Rightarrow> Vector3" where
  "solveKepler_point E a b e cosNode sinNode cosInc sinInc =
     (let xOrb = a * (cos E - e);
          yOrb = b * sin E
      in Vector3 (cosNode * xOrb - sinNode * cosInc * yOrb)
                 (sinInc * yOrb)
                 (sinNode * xOrb + cosNode * cosInc * yOrb))"

text \<open>\<open>createOrbitLine\<close>: the body of its loop as a function of \<open>E\<close>, and the list of the
  \<open>N = 256\<close> points it pushes.\<close>

definition orbitLine_N :: nat where
  "orbitLine_N = 256"

definition orbitLine_point ::
  "real \<Rightarrow> real \<Rightarrow> real \<Rightarrow> real \<Rightarrow> real \<Rightarrow> real \<Rightarrow> real \<Rightarrow> real \<Rightarrow> Vector3" where
  "orbitLine_point a b e cosNode sinNode cosInc sinInc E =
     (let xOrb = a * (cos E - e);
          yOrb = b * sin E
      in Vector3 (cosNode * xOrb - sinNode * cosInc * yOrb)
                 (sinInc * yOrb)
                 (sinNode * xOrb + cosNode * cosInc * yOrb))"

definition createOrbitLine ::
  "real \<Rightarrow> real \<Rightarrow> real \<Rightarrow> real \<Rightarrow> real \<Rightarrow> real \<Rightarrow> real \<Rightarrow> Vector3 list" where
  "createOrbitLine a b e cosNode sinNode cosInc sinInc =
     map (\<lambda>i. orbitLine_point a b e cosNode sinNode cosInc sinInc
                 ((real i / real orbitLine_N) * pi * 2))
         [0 ..< orbitLine_N]"

text \<open>
  Eccentricities the engine feeds to the solver: \<open>buildSolarSystem\<close> clamps a planet's
  (\<open>Math.min((planet.eccentricity ?? 0) * ECCENTRICITY_BOOST, 0.70)\<close>; the record's field is a
  number, so the \<open>?? 0\<close> is not modelled), and \<open>createComets\<close> takes a comet's from
  \<open>COMET_DEFS\<close> as it is. Of a comet definition the display texts \<open>nameSr\<close> and
  \<open>description\<close> are left out. \<open>createComets\<close> also gives a comet its step per frame,
  \<open>speed = (1 / def.period) * 0.006\<close>, and the mean anomaly it starts from,
  \<open>meanAnomaly = def.startFraction * Math.PI * 2\<close>.
\<close>

definition ECCENTRICITY_BOOST :: real where
  "ECCENTRICITY_BOOST = 1"

definition planetEccentricity :: "real \<Rightarrow> real" where
  "planetEccentricity eccentricity = min (eccentricity * ECCENTRICITY_BOOST) 0.70"

record CometDef =
  cd_name :: string
  cd_color :: string
  cd_a :: real
  cd_e :: real
  cd_inc :: real
  cd_node :: real
  cd_period :: real
  cd_radius :: real
  cd_rotPeriod :: real
  cd_startFraction :: real

definition COMET_DEFS :: "CometDef list" where
  "COMET_DEFS =
     [\<lparr>cd_name = ''Halley'', cd_color = ''#99ccff'', cd_a = 17.834, cd_e = 0.96714,
       cd_inc = 162.26, cd_node = 58.42, cd_period = 75.32, cd_radius = 11,
       cd_rotPeriod = 2.2, cd_startFraction = 0.42\<rparr>,
      \<lparr>cd_name = ''Encke'', cd_color = ''#aaffcc'', cd_a = 2.2179, cd_e = 0.84823,
       cd_inc = 11.78, cd_node = 334.57, cd_period = 3.30, cd_radius = 4.8,
       cd_rotPeriod = 11.1, cd_startFraction = 0.10\<rparr>,
      \<lparr>cd_name = ''67P'', cd_color = ''#ffddaa'', cd_a = 3.463, cd_e = 0.641,
       cd_inc = 7.04, cd_node = 50.14, cd_period = 6.44, cd_radius = 2.5,
       cd_rotPeriod = 12.4, cd_startFraction = 0.25\<rparr>]"

definition createComets_speed :: "CometDef \<Rightarrow> real" where
  "createComets_speed def = (1 / cd_period def) * 0.006"

definition createComets_meanAnomaly :: "CometDef \<Rightarrow> real" where
  "createComets_meanAnomaly def = cd_startFraction def * pi * 2"


section \<open>Body records and scene objects\<close>

text \<open>
  \<open>Planet\<close> is the record of \<open>planet.model.ts\<close> with the optional flags the component
  sets and reads (\<open>is_asteroid_belt\<close>, \<open>is_oort_cloud\<close>, \<open>is_comet\<close>; an absent flag is
  \<open>False\<close>).
  The free-text fields \<open>description\<close> and \<open>notable_satellites\<close> are only displayed and are
  left out.
\<close>

record Planet =
  name :: string
  name_sr :: string
  radius :: real
  distance_from_sun :: real
  orbital_period :: real
  rotation_period :: real
  color :: string
  satellites :: nat
  is_star :: bool
  is_asteroid_belt :: bool
  is_oort_cloud :: bool
  is_comet :: bool
  eccentricity :: real
  inclination :: real
  ascending_node :: real

definition OORT_CLOUD_PLANET :: Planet where
  "OORT_CLOUD_PLANET =
     \<lparr>name = ''Oort Cloud'', name_sr = ''Ortov oblak'', radius = 0,
      distance_from_sun = 50000, orbital_period = 0, rotation_period = 0,
      color = ''#aaccff'', satellites = 0, is_star = False, is_asteroid_belt = False,
      is_oort_cloud = True, is_comet = False, eccentricity = 0, inclination = 0,
      ascending_node = 0\<rparr>"

definition ASTEROID_BELT_PLANET :: Planet where
  "ASTEROID_BELT_PLANET =
     \<lparr>name = ''Asteroid Belt'', name_sr = ''Asteroidni pojas'', radius = 0,
      distance_from_sun = 2.7, orbital_period = 0, rotation_period = 0,
      color = ''#aa9966'', satellites = 0, is_star = False, is_asteroid_belt = True,
      is_oort_cloud = False, is_comet = False, eccentricity = 0, inclination = 0,
      ascending_node = 0\<rparr>"

text \<open>
  \<open>VISUAL_SIZES\<close> is a plain object with one entry per body name, and the component reads it
  as \<open>this.VISUAL_SIZES[planet.name] ?? d\<close>. For a name with an entry the value is the entry.
  For a name the object only inherits (the members of \<open>Object.prototype\<close>, listed in
  \<open>OBJECT_PROTOTYPE_KEYS\<close>) the value read is a function or an object, which \<open>??\<close> keeps and
  which is not a number. For every other name the value read is \<open>undefined\<close> and \<open>??\<close> puts
  \<open>d\<close> in its place. \<open>VISUAL_SIZES_or\<close> is that expression, \<open>None\<close> where its value is not a
  number. \<open>buildSolarSystem\<close> reads it with \<open>?? 1\<close> (\<open>visualRadius\<close>), the double-click
  handler with \<open>?? 2\<close>.
\<close>

definition VISUAL_SIZES :: "string \<rightharpoonup> real" where
  "VISUAL_SIZES =
     [''Sun'' \<mapsto> 1.8, ''Mercury'' \<mapsto> 0.7, ''Venus'' \<mapsto> 1.1, ''Earth'' \<mapsto> 1.2,
      ''Mars'' \<mapsto> 0.9, ''Jupiter'' \<mapsto> 3.2, ''Saturn'' \<mapsto> 2.8, ''Uranus'' \<mapsto> 2.2,
      ''Neptune'' \<mapsto> 2.1]"

definition OBJECT_PROTOTYPE_KEYS :: "string list" where
  "OBJECT_PROTOTYPE_KEYS =
     [''constructor'', ''hasOwnProperty'', ''isPrototypeOf'', ''propertyIsEnumerable'',
      ''toLocaleString'', ''toString'', ''valueOf'', ''__defineGetter__'', ''__defineSetter__'',
      ''__lookupGetter__'', ''__lookupSetter__'', ''__proto__'']"

definition VISUAL_SIZES_or :: "string \<Rightarrow> real \<Rightarrow> real option" where
  "VISUAL_SIZES_or n d =
     (case VISUAL_SIZES n of
        Some r \<Rightarrow> Some r
      | None \<Rightarrow> if n \<in> set OBJECT_PROTOTYPE_KEYS then None else Some d)"

definition visualRadius :: "Planet \<Rightarrow> real option" where
  "visualRadius pl = VISUAL_SIZES_or (name pl) 1"

definition HIT_RADIUS :: real where
  "HIT_RADIUS = 5"

definition HIT_PX :: real where
  "HIT_PX = 30"

text \<open>
  Meshes. Every mesh of the scene is created by its own \<open>new THREE.Mesh\<close> and is held by one
  owner (a planet, comet or moon object, the \<open>sunHitMesh\<close> field) besides the \<open>hitMeshes\<close>
  array, so each owner carries its meshes by value and \<open>hitMeshes\<close> is read off the owners.
  Of a visible mesh the component changes the position and \<open>rotation.y\<close>; of a hit mesh the
  position and the uniform scale (\<open>scale.setScalar\<close>).
\<close>

record Mesh =
  position :: Vector3
  rotation_y :: real

record UserData =
  planet :: "Planet option"
  isAsteroidBelt :: bool

record HitMesh =
  hit_position :: Vector3
  hit_scale :: real
  userData :: UserData

record PlanetObject =
  p_mesh :: Mesh
  p_hitMesh :: HitMesh
  p_visualRadius :: real
  p_speed :: real
  p_meanAnomaly :: real
  p_rotationDir :: real
  p_a :: real
  p_b :: real
  p_e :: real
  p_cosNode :: real
  p_sinNode :: real
  p_cosInc :: real
  p_sinInc :: real
  p_ring :: "Vector3 option"

text \<open>Of a comet's tail the second vertex of \<open>tailGeo\<close> and the position of \<open>tailLine\<close> are
  kept.\<close>

record CometObject =
  c_planet :: Planet
  c_mesh :: Mesh
  c_tailEnd :: Vector3
  c_tailLine_position :: Vector3
  c_hitMesh :: HitMesh
  c_perihelionVis :: real
  c_speed :: real
  c_meanAnomaly :: real
  c_a :: real
  c_b :: real
  c_e :: real
  c_cosNode :: real
  c_sinNode :: real
  c_cosInc :: real
  c_sinInc :: real

text \<open>
  A moon refers to its parent planet object; here by the parent's index in \<open>planetObjects\<close>.
  In the source the reference is to an object that exists; what is proved about moons is
  proved for indices in range.
\<close>

record MoonObject =
  m_mesh :: Mesh
  m_orbitLine_position :: Vector3
  m_orbitRadius :: real
  m_speed :: real
  m_angle :: real
  m_cosInc :: real
  m_sinInc :: real
  m_parentPlanetObj :: nat

record ZoomAnim =
  fromCam :: Vector3
  toCam :: Vector3
  fromTarget :: Vector3
  toTarget :: Vector3
  anim_t :: real

text \<open>
  The component's state. \<open>otherHitMeshes\<close> holds the hit meshes that no planet or comet object
  and not the \<open>sunHitMesh\<close> field owns: the asteroid-belt ring and the Oort-cloud sphere.
  \<open>asteroidBelt_rotation_y\<close> is \<open>asteroidBelt.rotation.y\<close> when the belt exists.
\<close>

record SolarSystem =
  simulationSpeed :: real
  hoveredPlanet :: "(string \<times> string) option"
  camera_position :: Vector3
  camera_fov :: real
  controls_target :: Vector3
  controls_enabled :: bool
  controls_minDistance :: real
  planetObjects :: "PlanetObject list"
  cometObjects :: "CometObject list"
  moonObjects :: "MoonObject list"
  zoomAnim :: "ZoomAnim option"
  sunHitMesh :: "HitMesh option"
  otherHitMeshes :: "HitMesh list"
  asteroidBelt_rotation_y :: "real option"

text \<open>What the component emits through its two outputs \<open>planetSelected\<close> and \<open>closeInfo\<close>.\<close>

datatype Emitted = PlanetSelected Planet | CloseInfo


section \<open>Speed control\<close>

definition increaseSpeed :: "SolarSystem \<Rightarrow> SolarSystem" where
  "increaseSpeed s =
     s\<lparr>simulationSpeed :=
         (let v = simulationSpeed s in if v = 0 then 0.125 else min (v * 2) 64)\<rparr>"

definition decreaseSpeed :: "SolarSystem \<Rightarrow> SolarSystem" where
  "decreaseSpeed s =
     s\<lparr>simulationSpeed :=
         (let v = simulationSpeed s in if v \<le> 0.125 then 0 else v / 2)\<rparr>"


section \<open>The frame function\<close>

definition keplerToWorld :: "PlanetObject \<Rightarrow> Vector3" where
  "keplerToWorld obj =
     solveKepler (p_meanAnomaly obj) (p_a obj) (p_b obj) (p_e obj)
       (p_cosNode obj) (p_sinNode obj) (p_cosInc obj) (p_sinInc obj)"

definition keplerCometToWorld :: "CometObject \<Rightarrow> Vector3" where
  "keplerCometToWorld obj =
     solveKepler (c_meanAnomaly obj) (c_a obj) (c_b obj) (c_e obj)
       (c_cosNode obj) (c_sinNode obj) (c_cosInc obj) (c_sinInc obj)"

text \<open>\<open>canvas.clientHeight / 2 || 1\<close> and \<open>Math.tan((this.camera.fov * Math.PI) / 360)\<close>.\<close>

definition halfH :: "real \<Rightarrow> real" where
  "halfH clientHeight = (if clientHeight / 2 = 0 then 1 else clientHeight / 2)"

definition tanHalfFov :: "SolarSystem \<Rightarrow> real" where
  "tanHalfFov s = tan ((camera_fov s * pi) / 360)"

text \<open>The radius \<open>(HIT_PX / halfH) * dist * tanHalfFov\<close> that the planet, Sun and comet
  branches each compute.\<close>

definition hitWorldR :: "real \<Rightarrow> real \<Rightarrow> real \<Rightarrow> real" where
  "hitWorldR hH distance tanHF = (HIT_PX / hH) * distance * tanHF"

text \<open>One round of the loop over \<open>planetObjects\<close>.\<close>

definition animatePlanet :: "real \<Rightarrow> SolarSystem \<Rightarrow> PlanetObject \<Rightarrow> PlanetObject" where
  "animatePlanet clientHeight s obj =
     (let speed = simulationSpeed s;
          obj1 = obj\<lparr>p_meanAnomaly := p_meanAnomaly obj + p_speed obj * speed\<rparr>;
          pos = keplerToWorld obj1;
          dist = v3_distanceTo (camera_position s) pos;
          r = hitWorldR (halfH clientHeight) dist (tanHalfFov s)
      in obj1\<lparr>p_mesh := (p_mesh obj1)\<lparr>position := pos,
                    rotation_y := rotation_y (p_mesh obj1) + p_rotationDir obj1 * 0.005\<rparr>,
               p_hitMesh := (p_hitMesh obj1)\<lparr>hit_position := pos,
                    hit_scale := r / HIT_RADIUS\<rparr>,
               p_ring := map_option (\<lambda>_. pos) (p_ring obj1)\<rparr>)"

text \<open>The Sun branch: rescales \<open>sunHitMesh\<close> against the camera's distance from the origin.\<close>

definition animateSun :: "real \<Rightarrow> SolarSystem \<Rightarrow> HitMesh \<Rightarrow> HitMesh" where
  "animateSun clientHeight s h =
     (let sunDist = v3_distanceTo (camera_position s) (Vector3 0 0 0);
          sunHitR = hitWorldR (halfH clientHeight) sunDist (tanHalfFov s)
      in h\<lparr>hit_scale := sunHitR / HIT_RADIUS\<rparr>)"

text \<open>One round of the loop over \<open>moonObjects\<close>; \<open>planets\<close> is \<open>planetObjects\<close> as the planet
  loop has left it, so \<open>pp\<close> is the parent's position of this frame.\<close>

definition animateMoon :: "SolarSystem \<Rightarrow> PlanetObject list \<Rightarrow> MoonObject \<Rightarrow> MoonObject" where
  "animateMoon s planets obj =
     (let speed = simulationSpeed s;
          angle = m_angle obj + m_speed obj * speed;
          pp = position (p_mesh (planets ! m_parentPlanetObj obj));
          x = cos angle * m_orbitRadius obj;
          zOrb = sin angle * m_orbitRadius obj
      in obj\<lparr>m_angle := angle,
              m_mesh := (m_mesh obj)\<lparr>position :=
                  Vector3 (vx pp + x) (vy pp + m_sinInc obj * zOrb) (vz pp + m_cosInc obj * zOrb)\<rparr>,
              m_orbitLine_position := pp\<rparr>)"

text \<open>One round of the loop over \<open>cometObjects\<close>.\<close>

definition animateComet :: "real \<Rightarrow> SolarSystem \<Rightarrow> CometObject \<Rightarrow> CometObject" where
  "animateComet clientHeight s obj =
     (let speed = simulationSpeed s;
          obj1 = obj\<lparr>c_meanAnomaly := c_meanAnomaly obj + c_speed obj * speed\<rparr>;
          pos = keplerCometToWorld obj1;
          cometDist = v3_distanceTo (camera_position s) pos;
          cometHitR = hitWorldR (halfH clientHeight) cometDist (tanHalfFov s);
          distFromSun = v3_length pos;
          tailLength = 55 * exp (- distFromSun / (3 * c_perihelionVis obj1));
          antiSolar = v3_multiplyScalar (v3_normalize pos) tailLength
      in obj1\<lparr>c_mesh := (c_mesh obj1)\<lparr>position := pos,
                    rotation_y := rotation_y (c_mesh obj1) + 0.003\<rparr>,
               c_hitMesh := (c_hitMesh obj1)\<lparr>hit_position := pos,
                    hit_scale := cometHitR / HIT_RADIUS\<rparr>,
               c_tailEnd := antiSolar,
               c_tailLine_position := pos\<rparr>)"

text \<open>The progress update \<open>Math.min(a.t + 0.04, 1)\<close> and the cubic ease of the zoom block.\<close>

definition zoomProgress :: "real \<Rightarrow> real" where
  "zoomProgress tt = min (tt + 0.04) 1"

definition ease :: "real \<Rightarrow> real" where
  "ease tt = (if tt < 0.5 then 4 * tt ^ 3 else 1 - (- 2 * tt + 2) ^ 3 / 2)"

definition animateZoom :: "SolarSystem \<Rightarrow> SolarSystem" where
  "animateZoom s =
     (case zoomAnim s of
        None \<Rightarrow> s
      | Some a0 \<Rightarrow>
          (let a = a0\<lparr>anim_t := zoomProgress (anim_t a0)\<rparr>;
               s1 = s\<lparr>camera_position := v3_lerpVectors (fromCam a) (toCam a) (ease (anim_t a)),
                      controls_target := v3_lerpVectors (fromTarget a) (toTarget a) (ease (anim_t a))\<rparr>
           in if anim_t a \<ge> 1 then s1\<lparr>zoomAnim := None, controls_enabled := True\<rparr>
              else s1\<lparr>zoomAnim := Some a\<rparr>))"

text \<open>
  \<open>animate\<close>, one frame: planets, Sun, moons, comets, belt rotation, zoom block, in the order of
  the source. The calls into the scheduler, \<open>controls.update()\<close> and the renderer are outside
  the component and are not part of the function.
\<close>

definition animate :: "real \<Rightarrow> SolarSystem \<Rightarrow> SolarSystem" where
  "animate clientHeight s =
     (let speed = simulationSpeed s;
          planets = map (animatePlanet clientHeight s) (planetObjects s);
          sun = map_option (animateSun clientHeight s) (sunHitMesh s);
          moons = map (animateMoon s planets) (moonObjects s);
          comets = map (animateComet clientHeight s) (cometObjects s);
          belt = map_option (\<lambda>r. r - 0.00008 * speed) (asteroidBelt_rotation_y s)
      in animateZoom
           (s\<lparr>planetObjects := planets, sunHitMesh := sun, moonObjects := moons,
              cometObjects := comets, asteroidBelt_rotation_y := belt\<rparr>))"


section \<open>Pointer and camera handlers\<close>

text \<open>
  A pointer handler first casts a ray against \<open>hitMeshes\<close>; the raycaster is three.js code, and
  its answer, the list of the hit objects nearest first, is the handler's argument \<open>hits\<close>.
  A handler returns what it emitted and the new state. The hit spheres have the default
  front-side material (\<open>makeHitMesh\<close>), so a ray meets a sphere only where it enters it: a
  camera inside a hit sphere, and so one at its centre, gets no hit on that sphere.
\<close>

definition onControlsStart :: "SolarSystem \<Rightarrow> Emitted list \<times> SolarSystem" where
  "onControlsStart s =
     (if hoveredPlanet s \<noteq> None then ([], s\<lparr>hoveredPlanet := None\<rparr>) else ([], s))"

definition onCanvasZoom :: "SolarSystem \<Rightarrow> Emitted list \<times> SolarSystem" where
  "onCanvasZoom s = ([CloseInfo], s)"

text \<open>\<open>touches\<close> is \<open>e.touches.length\<close>.\<close>

definition onCanvasTouchStart :: "nat \<Rightarrow> SolarSystem \<Rightarrow> Emitted list \<times> SolarSystem" where
  "onCanvasTouchStart touches s = (if touches \<ge> 2 then ([CloseInfo], s) else ([], s))"

definition onCanvasClick :: "HitMesh list \<Rightarrow> SolarSystem \<Rightarrow> Emitted list \<times> SolarSystem" where
  "onCanvasClick hits s =
     (case hits of
        [] \<Rightarrow> ([], s)
      | h # _ \<Rightarrow>
          (case planet (userData h) of
             None \<Rightarrow> ([], s)
           | Some pl \<Rightarrow>
               if is_oort_cloud pl \<and> v3_length (camera_position s) \<le> 1800 then ([], s)
               else ([PlanetSelected pl], s)))"

text \<open>
  The double-click handler. For a planet whose name \<open>VISUAL_SIZES\<close> only inherits, \<open>visR * 8\<close> and
  with it \<open>zoomDist\<close> and \<open>toCam\<close> are \<open>NaN\<close>, which the numbers of this model do not have: the
  handler's result is then \<open>None\<close>. Everywhere else it is what the handler emitted and the new
  state.
\<close>

definition onCanvasDblClick ::
  "HitMesh list \<Rightarrow> SolarSystem \<Rightarrow> (Emitted list \<times> SolarSystem) option" where
  "onCanvasDblClick hits s =
     (case hits of
        [] \<Rightarrow> Some ([], s)
      | h # _ \<Rightarrow>
          (case planet (userData h) of
             None \<Rightarrow> Some ([], s)
           | Some pl \<Rightarrow>
               if is_oort_cloud pl then Some ([], s)
               else
                 (let targetPos = hit_position h;
                      zoomDist =
                        (if is_asteroid_belt pl then Some 120
                         else if is_comet pl then Some 20
                         else (case VISUAL_SIZES_or (name pl) 2 of
                                 None \<Rightarrow> None
                               | Some visR \<Rightarrow>
                                   Some (max (visR * 8) (controls_minDistance s + 5))));
                      dir = v3_normalize (v3_sub (camera_position s) targetPos)
                  in (case zoomDist of
                        None \<Rightarrow> None
                      | Some zd \<Rightarrow>
                          Some ([CloseInfo],
                            s\<lparr>hoveredPlanet := None,
                              controls_enabled := False,
                              zoomAnim := Some \<lparr>fromCam = camera_position s,
                                                toCam = v3_addScaledVector targetPos dir zd,
                                                fromTarget = controls_target s,
                                                toTarget = targetPos,
                                                anim_t = 0\<rparr>\<rparr>)))))"

text \<open>The parent component (\<open>App\<close>): its selection, set by \<open>onPlanetSelected\<close> and cleared by
  \<open>onInfoClosed\<close>; the info panel is open while a planet is selected.\<close>

record App =
  selectedPlanet :: "Planet option"

definition onPlanetSelected :: "Planet \<Rightarrow> App \<Rightarrow> App" where
  "onPlanetSelected pl app = app\<lparr>selectedPlanet := Some pl\<rparr>"

definition onInfoClosed :: "App \<Rightarrow> App" where
  "onInfoClosed app = app\<lparr>selectedPlanet := None\<rparr>"


section \<open>Placement of the bodies\<close>

text \<open>
  Where a moon's mesh is put: the parent's position plus the offset of the moon's angle on its
  tilted circle (the three arguments of \<open>obj.mesh.position.set\<close> in the moon loop).
\<close>

definition moonOffset :: "MoonObject \<Rightarrow> Vector3 \<Rightarrow> Vector3" where
  "moonOffset obj pp =
     Vector3 (vx pp + cos (m_angle obj) * m_orbitRadius obj)
             (vy pp + m_sinInc obj * (sin (m_angle obj) * m_orbitRadius obj))
             (vz pp + m_cosInc obj * (sin (m_angle obj) * m_orbitRadius obj))"

text \<open>
  A scene is \<open>placed\<close> when every body sits where its current anomaly or angle puts it: a
  planet's mesh, hit mesh and ring at \<open>keplerToWorld\<close>, a comet's mesh, hit mesh and tail line
  at \<open>keplerCometToWorld\<close>, a moon at its offset from its parent, whose index is in range.
  Every frame leaves the scene placed (\<open>animate_placed\<close> below). The constructors place
  the meshes, hit meshes, tail lines and moons so (\<open>mesh.position.copy(initPos)\<close> and the
  like); Saturn's ring alone stays at the origin until the first frame.
\<close>

definition placed :: "SolarSystem \<Rightarrow> bool" where
  "placed s \<longleftrightarrow>
     (\<forall>obj \<in> set (planetObjects s).
        position (p_mesh obj) = keplerToWorld obj
        \<and> hit_position (p_hitMesh obj) = keplerToWorld obj
        \<and> (case p_ring obj of None \<Rightarrow> True | Some r \<Rightarrow> r = keplerToWorld obj))
     \<and> (\<forall>obj \<in> set (cometObjects s).
        position (c_mesh obj) = keplerCometToWorld obj
        \<and> hit_position (c_hitMesh obj) = keplerCometToWorld obj
        \<and> c_tailLine_position obj = keplerCometToWorld obj)
     \<and> (\<forall>obj \<in> set (moonObjects s).
        m_parentPlanetObj obj < length (planetObjects s)
        \<and> m_orbitLine_position obj = position (p_mesh (planetObjects s ! m_parentPlanetObj obj))
        \<and> position (m_mesh obj) =
            moonOffset obj (position (p_mesh (planetObjects s ! m_parentPlanetObj obj))))"


section \<open>A small scene\<close>

text \<open>
  A concrete scene on which the statements below are exercised: the Sun's hit mesh, one planet
  and one comet at perihelion (mean anomaly 0, node and inclination 0), one moon, the Oort
  sphere; simulation paused, camera on the z axis at distance 1800.
\<close>

definition JUPITER :: Planet where
  "JUPITER =
     \<lparr>name = ''Jupiter'', name_sr = ''Jupiter'', radius = 69911,
      distance_from_sun = 5.204, orbital_period = 4332.59, rotation_period = 0.41,
      color = ''#C88B3A'', satellites = 95, is_star = False, is_asteroid_belt = False,
      is_oort_cloud = False, is_comet = False, eccentricity = 0.0490, inclination = 1.303,
      ascending_node = 100.556\<rparr>"

definition HALLEY :: Planet where
  "HALLEY =
     \<lparr>name = ''Halley'', name_sr = ''1P/Halley'', radius = 11,
      distance_from_sun = 17.834, orbital_period = 75.32 * 365.25, rotation_period = 2.2,
      color = ''#99ccff'', satellites = 0, is_star = False, is_asteroid_belt = False,
      is_oort_cloud = False, is_comet = True, eccentricity = 0.96714, inclination = 162.26,
      ascending_node = 58.42\<rparr>"

definition SUN :: Planet where
  "SUN =
     \<lparr>name = ''Sun'', name_sr = ''Sunce'', radius = 696000,
      distance_from_sun = 0, orbital_period = 0, rotation_period = 25.38,
      color = ''#FDB813'', satellites = 0, is_star = True, is_asteroid_belt = False,
      is_oort_cloud = False, is_comet = False, eccentricity = 0, inclination = 0,
      ascending_node = 0\<rparr>"

definition exampleJupiter :: PlanetObject where
  "exampleJupiter =
     \<lparr>p_mesh = \<lparr>position = Vector3 (182.14 * (1 - 0.049)) 0 0, rotation_y = 0\<rparr>,
      p_hitMesh = \<lparr>hit_position = Vector3 (182.14 * (1 - 0.049)) 0 0, hit_scale = 1,
                   userData = \<lparr>planet = Some JUPITER, isAsteroidBelt = False\<rparr>\<rparr>,
      p_visualRadius = 3.2, p_speed = (365.25 / 4332.59) * 0.006, p_meanAnomaly = 0,
      p_rotationDir = 1, p_a = 182.14, p_b = 182.14 * sqrt (1 - 0.049 * 0.049),
      p_e = 0.049, p_cosNode = 1, p_sinNode = 0, p_cosInc = 1, p_sinInc = 0,
      p_ring = None\<rparr>"

definition exampleIo :: MoonObject where
  "exampleIo =
     \<lparr>m_mesh = \<lparr>position = Vector3 (182.14 * (1 - 0.049) + 4.8) 0 0, rotation_y = 0\<rparr>,
      m_orbitLine_position = Vector3 (182.14 * (1 - 0.049)) 0 0,
      m_orbitRadius = 4.8, m_speed = (365.25 / 1.769) * 0.006, m_angle = 0,
      m_cosInc = 1, m_sinInc = 0, m_parentPlanetObj = 0\<rparr>"

definition exampleHalley :: CometObject where
  "exampleHalley =
     \<lparr>c_planet = HALLEY,
      c_mesh = \<lparr>position = Vector3 (624.19 * (1 - 0.96714)) 0 0, rotation_y = 0\<rparr>,
      c_tailEnd = Vector3 0 0 0,
      c_tailLine_position = Vector3 (624.19 * (1 - 0.96714)) 0 0,
      c_hitMesh = \<lparr>hit_position = Vector3 (624.19 * (1 - 0.96714)) 0 0, hit_scale = 1,
                   userData = \<lparr>planet = Some HALLEY, isAsteroidBelt = False\<rparr>\<rparr>,
      c_perihelionVis = 624.19 * (1 - 0.96714), c_speed = (1 / 75.32) * 0.006,
      c_meanAnomaly = 0, c_a = 624.19, c_b = 624.19 * sqrt (1 - 0.96714 * 0.96714),
      c_e = 0.96714, c_cosNode = 1, c_sinNode = 0, c_cosInc = 1, c_sinInc = 0\<rparr>"

definition exampleSunHit :: HitMesh where
  "exampleSunHit =
     \<lparr>hit_position = Vector3 0 0 0, hit_scale = 1,
      userData = \<lparr>planet = Some SUN, isAsteroidBelt = False\<rparr>\<rparr>"

definition exampleOortSphere :: HitMesh where
  "exampleOortSphere =
     \<lparr>hit_position = Vector3 0 0 0, hit_scale = 1,
      userData = \<lparr>planet = Some OORT_CLOUD_PLANET, isAsteroidBelt = False\<rparr>\<rparr>"

definition exampleScene :: SolarSystem where
  "exampleScene =
     \<lparr>simulationSpeed = 0,
      hoveredPlanet = Some (''Jupiter'', ''#C88B3A''),
      camera_position = Vector3 0 0 1800,
      camera_fov = 55,
      controls_target = Vector3 0 0 0,
      controls_enabled = True,
      controls_minDistance = 15,
      planetObjects = [exampleJupiter],
      cometObjects = [exampleHalley],
      moonObjects = [exampleIo],
      zoomAnim = None,
      sunHitMesh = Some exampleSunHit,
      otherHitMeshes = [exampleOortSphere],
      asteroidBelt_rotation_y = None\<rparr>"

definition exampleSceneFar :: SolarSystem where
  "exampleSceneFar = exampleScene\<lparr>camera_position := Vector3 0 0 1801\<rparr>"

definition exampleApp :: App where
  "exampleApp = onPlanetSelected JUPITER \<lparr>selectedPlanet = None\<rparr>"


section \<open>The solver: circular orbits and the divisor\<close>

lemma keplerLoop_circular: "keplerLoop k 0 M M = M"
  by (induction k) simp_all

lemma divisor_lower: "0 \<le> e \<Longrightarrow> 1 - e \<le> 1 - e * cos (E::real)"
proof -
  assume e: "0 \<le> e"
  have "e * cos E \<le> e * 1"
    by (rule mult_left_mono) (simp_all add: e)
  then show ?thesis by simp
qed

lemma keplerLoop_zero: "keplerLoop k e 0 0 = 0"
  by (induction k) simp_all

lemma keplerLoop_Suc_end:
  "keplerLoop (Suc k) e M E0 =
     keplerLoop k e M E0
       - (keplerLoop k e M E0 - e * sin (keplerLoop k e M E0) - M)
           / (1 - e * cos (keplerLoop k e M E0))"
  by (induction k arbitrary: E0) simp_all

text \<open>
  C9. With eccentricity 0 every Newton round leaves \<open>E\<close> at the mean anomaly, and with
  \<open>b = a\<close> the solver's orbital-plane point is the circular one, \<open>(a cos M, a sin M)\<close>; the
  returned vector is that point carried into the ecliptic frame.
\<close>

theorem solveKepler_circular_orbit:
  "keplerLoop k 0 M M = M
   \<and> solveKepler_E M 0 = M
   \<and> solveKepler_orb M a a 0 = (a * cos M, a * sin M)
   \<and> solveKepler M a a 0 cosNode sinNode cosInc sinInc =
       Vector3 (cosNode * (a * cos M) - sinNode * cosInc * (a * sin M))
               (sinInc * (a * sin M))
               (sinNode * (a * cos M) + cosNode * cosInc * (a * sin M))"
  by (simp add: keplerLoop_circular solveKepler_E_def solveKepler_orb_def solveKepler_def Let_def)

text \<open>
  C8. A planet's eccentricity is clamped to at most 0.70 (and stays non-negative when the
  record's is), a comet's is at most 0.96714; and for every eccentricity \<open>0 \<le> e < 1\<close> the
  divisor \<open>1 - e cos E\<close> of every Newton round is at least \<open>1 - e > 0\<close>, so it is never zero.
\<close>

theorem kepler_divisor_nonzero:
  "(0 \<le> ecc \<longrightarrow> 0 \<le> planetEccentricity ecc)
   \<and> planetEccentricity ecc \<le> 0.70
   \<and> (\<forall>d \<in> set COMET_DEFS. 0 \<le> cd_e d \<and> cd_e d \<le> 0.96714)
   \<and> (0 \<le> e \<and> e < 1 \<longrightarrow>
        0 < 1 - e \<and> 1 - e \<le> 1 - e * cos (keplerLoop k e M M)
        \<and> 1 - e * cos (keplerLoop k e M M) \<noteq> 0)"
proof -
  have a: "0 \<le> ecc \<longrightarrow> 0 \<le> planetEccentricity ecc"
    by (simp add: planetEccentricity_def ECCENTRICITY_BOOST_def)
  have b: "planetEccentricity ecc \<le> 0.70"
    by (simp add: planetEccentricity_def)
  have c: "\<forall>d \<in> set COMET_DEFS. 0 \<le> cd_e d \<and> cd_e d \<le> 0.96714"
    by (simp add: COMET_DEFS_def)
  have d: "0 < 1 - e \<and> 1 - e \<le> 1 - e * cos (keplerLoop k e M M)
        \<and> 1 - e * cos (keplerLoop k e M M) \<noteq> 0" if "0 \<le> e" "e < 1"
    using that divisor_lower [of e "keplerLoop k e M M"] by simp
  from a b c d show ?thesis by blast
qed

theorem kepler_divisor_nonzero_witness:
  "(0::real) \<le> 0.2056 \<and> 0 \<le> planetEccentricity 0.2056 \<and> planetEccentricity 0.2056 \<le> 0.70
   \<and> COMET_DEFS ! 0 \<in> set COMET_DEFS \<and> cd_e (COMET_DEFS ! 0) \<le> 0.96714
   \<and> (0::real) \<le> 0.96714 \<and> (0.96714::real) < 1
   \<and> 1 - 0.96714 \<le> 1 - 0.96714 * cos (keplerLoop 14 0.96714 1 1)
   \<and> 1 - 0.96714 * cos (keplerLoop 14 0.96714 1 1) \<noteq> 0"
proof -
  have m: "COMET_DEFS ! 0 \<in> set COMET_DEFS"
    by (simp add: COMET_DEFS_def)
  show ?thesis
    using kepler_divisor_nonzero [of "0.2056" "0.96714" 14 1] m by simp
qed


section \<open>Accuracy of the Newton rounds\<close>

text \<open>
  With a root \<open>Es\<close> of Kepler's equation, \<open>Es - e sin Es = M\<close>, one Newton round carries \<open>E\<close>
  to a point whose distance from \<open>Es\<close> is \<open>e sin \<xi> (E - Es)\<^sup>2 / (2 (1 - e cos E))\<close> for some
  \<open>\<xi>\<close> no farther from \<open>E\<close> than \<open>Es\<close> is (Taylor's formula for the sine, second order).
\<close>

lemma sin_shift_deriv:
  fixes x :: real
  shows "DERIV (\<lambda>u. sin (x + u + 1/2 * real m * pi)) u :> sin (x + u + 1/2 * real (Suc m) * pi)"
proof -
  have "sin (x + u + 1/2 * real (Suc m) * pi) = cos (x + u + 1/2 * real m * pi)"
    using sin_expansion_lemma [of "x + u" m] by (simp add: field_simps)
  moreover have "DERIV (\<lambda>u. sin (x + u + 1/2 * real m * pi)) u :> cos (x + u + 1/2 * real m * pi)"
    by (auto intro!: derivative_eq_intros)
  ultimately show ?thesis by simp
qed

lemma sin_second_order:
  fixes x h :: real
  shows "\<exists>t. \<bar>t\<bar> \<le> \<bar>h\<bar> \<and> sin (x + h) = sin x + h * cos x - (h^2 / 2) * sin (x + t)"
proof -
  have "\<exists>t. \<bar>t\<bar> \<le> \<bar>h\<bar> \<and> sin (x + h) =
      (\<Sum>m<2. (sin (x + 0 + 1/2 * real m * pi) / fact m) * h ^ m)
        + (sin (x + t + 1/2 * real 2 * pi) / fact 2) * h ^ 2"
  proof (rule Maclaurin_all_le [where diff = "\<lambda>m u. sin (x + u + 1/2 * real m * pi)"
          and f = "\<lambda>u. sin (x + u)" and x = h and n = 2])
    show "(\<lambda>u. sin (x + u + 1/2 * real 0 * pi)) = (\<lambda>u. sin (x + u))"
      by simp
    show "\<forall>m u. DERIV (\<lambda>u. sin (x + u + 1/2 * real m * pi)) u
            :> sin (x + u + 1/2 * real (Suc m) * pi)"
      using sin_shift_deriv by blast
  qed
  then obtain t where t: "\<bar>t\<bar> \<le> \<bar>h\<bar>"
    and eq: "sin (x + h) =
      (\<Sum>m<2. (sin (x + 0 + 1/2 * real m * pi) / fact m) * h ^ m)
        + (sin (x + t + 1/2 * real 2 * pi) / fact 2) * h ^ 2"
    by blast
  have s: "(\<Sum>m<2. (sin (x + 0 + 1/2 * real m * pi) / fact m) * h ^ m) = sin x + h * cos x"
    by (simp add: eval_nat_numeral sin_add)
  have r: "sin (x + t + 1/2 * real 2 * pi) = - sin (x + t)"
    by simp
  have "sin (x + h) = sin x + h * cos x - (h^2 / 2) * sin (x + t)"
    unfolding eq s r by (simp add: fact_numeral)
  with t show ?thesis by blast
qed

lemma newton_error:
  fixes Es e M E :: real
  assumes root: "Es - e * sin Es = M" and den: "1 - e * cos E \<noteq> 0"
  shows "\<exists>t. \<bar>t\<bar> \<le> \<bar>Es - E\<bar> \<and>
      (E - (E - e * sin E - M) / (1 - e * cos E)) - Es =
         e * sin (E + t) * (Es - E)^2 / (2 * (1 - e * cos E))"
proof -
  obtain t where t: "\<bar>t\<bar> \<le> \<bar>Es - E\<bar>"
    and eq: "sin (E + (Es - E)) = sin E + (Es - E) * cos E - ((Es - E)^2 / 2) * sin (E + t)"
    using sin_second_order [of "Es - E" E] by blast
  have sEs: "sin Es = sin E + (Es - E) * cos E - ((Es - E)^2 / 2) * sin (E + t)"
    using eq by simp
  have "(E - (E - e * sin E - M) / (1 - e * cos E)) - Es =
      ((E - Es) * (1 - e * cos E) - (E - e * sin E - M)) / (1 - e * cos E)"
    using den by (simp add: diff_divide_distrib)
  also have "(E - Es) * (1 - e * cos E) - (E - e * sin E - M) =
      e * (sin E - sin Es - (E - Es) * cos E)"
    using root by (simp add: algebra_simps)
  also have "sin E - sin Es - (E - Es) * cos E = ((Es - E)^2 / 2) * sin (E + t)"
    unfolding sEs by (simp add: algebra_simps)
  finally have "(E - (E - e * sin E - M) / (1 - e * cos E)) - Es =
      e * (((Es - E)^2 / 2) * sin (E + t)) / (1 - e * cos E)" .
  then have "(E - (E - e * sin E - M) / (1 - e * cos E)) - Es =
         e * sin (E + t) * (Es - E)^2 / (2 * (1 - e * cos E))"
    by (simp add: field_simps)
  with t show ?thesis by blast
qed

lemma kepler_cont: "isCont (\<lambda>x. x - e * sin x) (y::real)"
  by (intro continuous_intros)

lemma kepler_root_exists:
  fixes e M :: real
  assumes "0 \<le> e"
  shows "\<exists>Es. \<bar>Es - M\<bar> \<le> e \<and> Es - e * sin Es = M"
proof -
  have lo: "(M - e) - e * sin (M - e) \<le> M"
  proof -
    have "- 1 \<le> sin (M - e)" by (rule sin_ge_minus_one)
    then have "e * (- 1) \<le> e * sin (M - e)" using assms by (intro mult_left_mono) simp_all
    then show ?thesis by simp
  qed
  have hi: "M \<le> (M + e) - e * sin (M + e)"
  proof -
    have "sin (M + e) \<le> 1" by (rule sin_le_one)
    then have "e * sin (M + e) \<le> e * 1" using assms by (intro mult_left_mono) simp_all
    then show ?thesis by simp
  qed
  have "\<exists>x. M - e \<le> x \<and> x \<le> M + e \<and> x - e * sin x = M"
    using lo hi assms by (intro IVT allI impI kepler_cont) simp_all
  then obtain Es where "M - e \<le> Es" "Es \<le> M + e" "Es - e * sin Es = M" by blast
  then have "\<bar>Es - M\<bar> \<le> e \<and> Es - e * sin Es = M" by auto
  then show ?thesis by blast
qed

lemma sin_lipschitz: "\<bar>sin a - sin b\<bar> \<le> \<bar>a - b\<bar>" for a b :: real
proof -
  have "\<bar>sin a - sin b\<bar> = 2 * \<bar>sin ((a - b) / 2)\<bar> * \<bar>cos ((a + b) / 2)\<bar>"
    by (simp add: sin_diff_sin abs_mult)
  also have "\<dots> \<le> 2 * \<bar>(a - b) / 2\<bar> * 1"
    by (intro mult_mono mult_left_mono abs_sin_x_le_abs_x) simp_all
  also have "\<dots> = \<bar>a - b\<bar>" by simp
  finally show ?thesis .
qed

lemma newton_contract:
  fixes Es e M E b :: real
  assumes e: "0 \<le> e" "e \<le> 3/5"
    and root: "Es - e * sin Es = M"
    and b: "\<bar>E - Es\<bar> \<le> b"
  shows "\<bar>(E - (E - e * sin E - M) / (1 - e * cos E)) - Es\<bar> \<le> 3/4 * b^2"
proof -
  define d where "d = 1 - e * cos E"
  have d_lo: "1 - e \<le> d" unfolding d_def using divisor_lower [OF e(1)] .
  then have d_pos: "0 < d" using e(2) by simp
  then have d_ne: "1 - e * cos E \<noteq> 0" by (simp add: d_def)
  obtain t where
    eq: "(E - (E - e * sin E - M) / (1 - e * cos E)) - Es =
         e * sin (E + t) * (Es - E)^2 / (2 * (1 - e * cos E))"
    using newton_error [OF root d_ne] by blast
  have h2: "(Es - E)^2 \<le> b^2"
  proof -
    have "(Es - E)^2 = \<bar>E - Es\<bar>^2" by (simp add: power2_commute)
    also have "\<dots> \<le> b^2" using b by (intro power_mono) simp_all
    finally show ?thesis .
  qed
  have "\<bar>e * sin (E + t) * (Es - E)^2 / (2 * d)\<bar> = e * \<bar>sin (E + t)\<bar> * (Es - E)^2 / (2 * d)"
    using e(1) d_pos by (simp add: abs_mult)
  also have "\<dots> \<le> e * 1 * b^2 / (2 * d)"
    using e(1) d_pos h2
    by (intro divide_right_mono mult_mono mult_left_mono) simp_all
  also have "\<dots> = (e / (2 * d)) * b^2" by simp
  also have "\<dots> \<le> 3/4 * b^2"
  proof -
    have "e \<le> 3/4 * (2 * d)" using d_lo e(2) by simp
    then have "e / (2 * d) \<le> 3/4" using d_pos by (simp add: pos_divide_le_eq)
    then show ?thesis by (intro mult_right_mono) simp_all
  qed
  finally show ?thesis unfolding eq d_def .
qed

text \<open>
  Up to the eccentricity \<open>3/5\<close> five rounds are enough, for every mean anomaly: the start is
  within \<open>e\<close> of the root and each round squares the distance, times at most
  \<open>e / (2 (1 - e)) \<le> 3/4\<close>.
\<close>

lemma five_rounds_small_eccentricity:
  fixes e M :: real
  assumes e: "0 \<le> e" "e \<le> 3/5"
  shows "\<bar>solveKepler_E M e - e * sin (solveKepler_E M e) - M\<bar> < 1 / 10^9"
proof -
  obtain Es where Es: "\<bar>Es - M\<bar> \<le> e" and root: "Es - e * sin Es = M"
    using kepler_root_exists [OF e(1)] by blast
  define E where "E k = keplerLoop k e M M" for k
  have E0: "E 0 = M" by (simp add: E_def)
  have step: "E (Suc k) = E k - (E k - e * sin (E k) - M) / (1 - e * cos (E k))" for k
    unfolding E_def by (rule keplerLoop_Suc_end)
  have contract: "\<bar>E (Suc k) - Es\<bar> \<le> 3/4 * b^2" if "\<bar>E k - Es\<bar> \<le> b" for k b
    unfolding step using newton_contract [OF e root that] .
  have b0: "\<bar>E 0 - Es\<bar> \<le> 3/5"
    using Es e(2) by (simp add: E0 abs_minus_commute)
  have b1: "\<bar>E 1 - Es\<bar> \<le> 27/100"
    using contract [OF b0] by (simp add: power2_eq_square)
  have b2: "\<bar>E 2 - Es\<bar> \<le> 55/1000"
    using contract [OF b1] by (simp add: power2_eq_square numeral_2_eq_2)
  have b3: "\<bar>E 3 - Es\<bar> \<le> 23/10000"
    using contract [OF b2] by (simp add: power2_eq_square numeral_3_eq_3 numeral_2_eq_2)
  have b4: "\<bar>E (Suc 3) - Es\<bar> \<le> 4/10^6"
    using contract [OF b3] by (simp add: power2_eq_square)
  have b5: "\<bar>E (Suc (Suc 3)) - Es\<bar> \<le> 12/10^12"
    using contract [OF b4] by (simp add: power2_eq_square)
  have five: "Suc (Suc 3) = 5" by simp
  have it: "iters e = 5" using e(2) by (simp add: iters_def)
  have S: "solveKepler_E M e = E 5" by (simp add: solveKepler_E_def it E_def)
  have "E 5 - e * sin (E 5) - M = (E 5 - Es) - e * (sin (E 5) - sin Es)"
    using root by (simp add: algebra_simps)
  also have "\<bar>\<dots>\<bar> \<le> \<bar>E 5 - Es\<bar> + e * \<bar>sin (E 5) - sin Es\<bar>"
  proof -
    have "\<bar>(E 5 - Es) - e * (sin (E 5) - sin Es)\<bar>
        \<le> \<bar>E 5 - Es\<bar> + \<bar>e * (sin (E 5) - sin Es)\<bar>"
      by (rule abs_triangle_ineq4)
    moreover have "\<bar>e * (sin (E 5) - sin Es)\<bar> = e * \<bar>sin (E 5) - sin Es\<bar>"
      using e(1) by (simp add: abs_mult)
    ultimately show ?thesis by simp
  qed
  also have "\<dots> \<le> \<bar>E 5 - Es\<bar> + e * \<bar>E 5 - Es\<bar>"
    using e(1) sin_lipschitz [of "E 5" Es] by (simp add: mult_left_mono)
  also have "\<dots> \<le> 12/10^12 + 3/5 * (12/10^12)"
    using b5 e unfolding five by (intro add_mono mult_mono) simp_all
  also have "\<dots> < 1 / 10^9" by simp
  finally show ?thesis unfolding S .
qed

text \<open>
  Enclosures of sines and cosines at rational points, from the Maclaurin polynomials with
  their remainder bound, and an enclosure of \<open>\<pi>\<close> from the sign of the cosine on either side of
  \<open>\<pi>/2\<close>.
\<close>

lemma sin_taylor:
  fixes x :: real
  shows "\<bar>sin x - (\<Sum>m<n. sin_coeff m * x ^ m)\<bar> \<le> \<bar>x\<bar> ^ n / fact n"
  using Maclaurin_sin_bound [of x n] by (simp add: divide_inverse mult.commute)

lemma cos_taylor:
  fixes x :: real
  shows "\<bar>cos x - (\<Sum>m<n. cos_coeff m * x ^ m)\<bar> \<le> \<bar>x\<bar> ^ n / fact n"
proof -
  obtain t where "cos x = (\<Sum>m<n. cos_coeff m * x ^ m) + (cos (t + 1/2 * real n * pi) / fact n) * x ^ n"
    using Maclaurin_cos_expansion [of x n] by blast
  then have "cos x - (\<Sum>m<n. cos_coeff m * x ^ m) = (cos (t + 1/2 * real n * pi) / fact n) * x ^ n"
    by simp
  also have "\<bar>\<dots>\<bar> = \<bar>cos (t + 1/2 * real n * pi)\<bar> * (\<bar>x\<bar> ^ n / fact n)"
    by (simp add: abs_mult power_abs)
  also have "\<dots> \<le> 1 * (\<bar>x\<bar> ^ n / fact n)"
    by (intro mult_right_mono) simp_all
  finally show ?thesis by simp
qed

lemma sin_lower:
  fixes x c :: real
  assumes "c \<le> (\<Sum>m<n. sin_coeff m * x ^ m) - \<bar>x\<bar> ^ n / fact n"
  shows "c \<le> sin x"
  using assms sin_taylor [of x n] by linarith

lemma sin_upper:
  fixes x c :: real
  assumes "(\<Sum>m<n. sin_coeff m * x ^ m) + \<bar>x\<bar> ^ n / fact n \<le> c"
  shows "sin x \<le> c"
  using assms sin_taylor [of x n] by linarith

lemma cos_lower:
  fixes x c :: real
  assumes "c \<le> (\<Sum>m<n. cos_coeff m * x ^ m) - \<bar>x\<bar> ^ n / fact n"
  shows "c \<le> cos x"
  using assms cos_taylor [of x n] by linarith

lemma cos_upper:
  fixes x c :: real
  assumes "(\<Sum>m<n. cos_coeff m * x ^ m) + \<bar>x\<bar> ^ n / fact n \<le> c"
  shows "cos x \<le> c"
  using assms cos_taylor [of x n] by linarith

lemmas taylor_eval = eval_nat_numeral sin_coeff_Suc cos_coeff_Suc

lemma half_pi_enclosure: "157075/100000 < pi / 2" "pi / 2 < 15708/10000"
proof -
  have c1: "(4/100000 :: real) \<le> cos (157075/100000)"
    by (rule cos_lower [where n = 12], simp add: taylor_eval)
  have c2: "cos (15708/10000 :: real) \<le> - 3/1000000"
    by (rule cos_upper [where n = 12], simp add: taylor_eval)
  show "157075/100000 < pi / 2"
  proof (rule ccontr)
    assume "\<not> 157075/100000 < pi / 2"
    then have "pi / 2 \<le> 157075/100000" by simp
    moreover have "(157075/100000 :: real) \<le> pi" using pi_ge_two by linarith
    moreover have "0 \<le> pi / 2" by simp
    ultimately have "cos (157075/100000 :: real) \<le> cos (pi / 2)"
      by (intro cos_monotone_0_pi_le)
    with c1 show False by simp
  qed
  show "pi / 2 < 15708/10000"
  proof (rule ccontr)
    assume "\<not> pi / 2 < 15708/10000"
    then have "15708/10000 \<le> pi / 2" by simp
    moreover have "- (pi / 2) \<le> 15708/10000" using pi_ge_two by linarith
    ultimately have "0 \<le> cos (15708/10000 :: real)" by (intro cos_ge_zero)
    with c2 show False by linarith
  qed
qed

lemma pi_enclosure: "31415/10000 < pi" "pi < 31416/10000"
  using half_pi_enclosure by linarith+

text \<open>
  The solver is symmetric about \<open>\<pi>\<close>: from the mean anomaly \<open>2\<pi> - M\<close> every round gives \<open>2\<pi>\<close>
  minus what it gives from \<open>M\<close>.
\<close>

lemma keplerLoop_reflect:
  "keplerLoop k e (2 * pi - M) (2 * pi - E) = 2 * pi - keplerLoop k e M E"
proof (induction k arbitrary: E)
  case 0
  show ?case by simp
next
  case (Suc k)
  define X where "X = E - e * sin E - M"
  define d where "d = 1 - e * cos E"
  have n: "2 * pi - E - e * sin (2 * pi - E) - (2 * pi - M) = - X"
    by (simp add: X_def)
  have c: "1 - e * cos (2 * pi - E) = d"
    by (simp add: d_def)
  have "2 * pi - E - (2 * pi - E - e * sin (2 * pi - E) - (2 * pi - M)) / (1 - e * cos (2 * pi - E))
      = 2 * pi - (E - X / d)"
    unfolding n c by simp
  then have "keplerLoop (Suc k) e (2 * pi - M) (2 * pi - E) =
      keplerLoop k e (2 * pi - M) (2 * pi - (E - X / d))"
    by (simp only: keplerLoop.simps)
  also have "\<dots> = 2 * pi - keplerLoop k e M (E - X / d)"
    by (rule Suc.IH)
  also have "\<dots> = 2 * pi - keplerLoop (Suc k) e M E"
    by (simp only: keplerLoop.simps X_def d_def)
  finally show ?case .
qed

text \<open>
  The five rounds at Encke's eccentricity \<open>e = 0.84823\<close> for a mean anomaly \<open>M\<close> between 0.3897
  and 0.3899. The first round throws \<open>E\<close> from \<open>M\<close> across the root, which lies near 1.171, to
  about 1.886; the second brings it back to about 1.340; from there the distance \<open>h\<close> to the
  root is squared by each round, times a factor between 0.48 and 0.64, which leaves at least
  \<open>6 \<sqdot> 10\<^sup>-\<^sup>9\<close> after the fifth. Since the sine lies below its tangent there, the residual is
  at least \<open>(1 - e cos 1.171) h\<close>.
\<close>

lemma sin_M:
  "3799109/10000000 \<le> sin (3897/10000 :: real)" "sin (3899/10000 :: real) \<le> 3800960/10000000"
  by (rule sin_lower [where n = 8], simp add: taylor_eval)
     (rule sin_upper [where n = 8], simp add: taylor_eval)

lemma cos_M:
  "9249470/10000000 \<le> cos (3899/10000 :: real)" "cos (3897/10000 :: real) \<le> 9250231/10000000"
  by (rule cos_lower [where n = 8], simp add: taylor_eval)
     (rule cos_upper [where n = 8], simp add: taylor_eval)

lemma sin_E1:
  "95042/100000 \<le> sin (18870/10000 :: real)" "sin (18855/10000 :: real) \<le> 95089/100000"
  by (rule sin_lower [where n = 13], simp add: taylor_eval)
     (rule sin_upper [where n = 13], simp add: taylor_eval)

lemma cos_E1:
  "- 31097/100000 \<le> cos (18870/10000 :: real)" "cos (18855/10000 :: real) \<le> - 30953/100000"
  by (rule cos_lower [where n = 13], simp add: taylor_eval)
     (rule cos_upper [where n = 13], simp add: taylor_eval)

lemma sin_root:
  "92113/100000 \<le> sin (1171/1000 :: real)" "sin (11714/10000 :: real) \<le> 92130/100000"
  by (rule sin_lower [where n = 10], simp add: taylor_eval)
     (rule sin_upper [where n = 10], simp add: taylor_eval)

lemma cos_root: "cos (1171/1000 :: real) \<le> 38924/100000"
  by (rule cos_upper [where n = 10], simp add: taylor_eval)

lemma cos_U:
  "2268/10000 \<le> cos (13420/10000 :: real)"
  "37165/100000 \<le> cos (119/100 :: real)"
  "38858/100000 \<le> cos (11717/10000 :: real)"
  by (rule cos_lower [where n = 12], simp add: taylor_eval)
     (rule cos_lower [where n = 10], simp add: taylor_eval,
      rule cos_lower [where n = 10], simp add: taylor_eval)

lemma first_round:
  fixes M :: real
  assumes M: "3897/10000 \<le> M" "M \<le> 3899/10000"
  shows "18855/10000 \<le> keplerLoop 1 (84823/100000) M M"
    and "keplerLoop 1 (84823/100000) M M \<le> 18870/10000"
proof -
  define s where "s = sin M"
  define c where "c = cos M"
  define d where "d = 1 - 84823/100000 * c"
  define q where "q = (84823/100000 * s) / d"
  have half: "M \<le> pi / 2" using M(2) pi_ge_two by linarith
  have neg: "- (pi / 2) \<le> 3897/10000" using pi_ge_two by linarith
  have top: "(3899/10000 :: real) \<le> pi / 2" using pi_ge_two by linarith
  have "sin (3897/10000) \<le> sin M"
    using neg M(1) half by (rule sin_monotone_2pi_le)
  then have s_lo: "3799109/10000000 \<le> s" unfolding s_def using sin_M(1) by linarith
  have "sin M \<le> sin (3899/10000)"
    using M pi_ge_two by (intro sin_monotone_2pi_le) linarith+
  then have s_hi: "s \<le> 3800960/10000000" unfolding s_def using sin_M(2) by linarith
  have "cos (3899/10000) \<le> cos M"
    using M pi_ge_two by (intro cos_monotone_0_pi_le) linarith+
  then have c_lo: "9249470/10000000 \<le> c" unfolding c_def using cos_M(1) by linarith
  have "cos M \<le> cos (3897/10000)"
    using M pi_ge_two by (intro cos_monotone_0_pi_le) linarith+
  then have c_hi: "c \<le> 9250231/10000000" unfolding c_def using cos_M(2) by linarith
  have d_eq: "d = 1 - 84823/100000 * c" by (rule d_def)
  have d_pos: "0 < d" using d_eq c_hi by linarith
  have E1: "keplerLoop 1 (84823/100000) M M = M + q"
    by (simp add: s_def c_def d_def q_def)
  have "14958/10000 * d \<le> 84823/100000 * s"
    using d_eq s_lo c_lo by linarith
  then have lo: "14958/10000 \<le> q"
    unfolding q_def using d_pos by (simp only: pos_le_divide_eq)
  have "84823/100000 * s \<le> 14971/10000 * d"
    using d_eq s_hi c_hi by linarith
  then have hi: "q \<le> 14971/10000"
    unfolding q_def using d_pos by (simp only: pos_divide_le_eq)
  show "18855/10000 \<le> keplerLoop 1 (84823/100000) M M"
    unfolding E1 using lo M(1) by linarith
  show "keplerLoop 1 (84823/100000) M M \<le> 18870/10000"
    unfolding E1 using hi M(2) by linarith
qed

lemma second_round:
  fixes M :: real
  assumes M: "3897/10000 \<le> M" "M \<le> 3899/10000"
  shows "13378/10000 \<le> keplerLoop 2 (84823/100000) M M"
    and "keplerLoop 2 (84823/100000) M M \<le> 13420/10000"
proof -
  define E1 where "E1 = keplerLoop 1 (84823/100000) M M"
  define s where "s = sin E1"
  define c where "c = cos E1"
  define cn where "cn = - c"
  define d where "d = 1 - 84823/100000 * c"
  define n where "n = E1 - 84823/100000 * s - M"
  define q where "q = n / d"
  have Eb: "18855/10000 \<le> E1" "E1 \<le> 18870/10000"
    unfolding E1_def by (rule first_round [OF M])+
  have s_lo: "95042/100000 \<le> s"
  proof -
    have "sin (pi - 18870/10000) \<le> sin (pi - E1)"
      using Eb pi_enclosure by (intro sin_monotone_2pi_le) linarith+
    then show ?thesis unfolding s_def using sin_E1(1) by simp
  qed
  have s_hi: "s \<le> 95089/100000"
  proof -
    have "sin (pi - E1) \<le> sin (pi - 18855/10000)"
      using Eb pi_enclosure by (intro sin_monotone_2pi_le) linarith+
    then show ?thesis unfolding s_def using sin_E1(2) by simp
  qed
  have "cos (18870/10000) \<le> cos E1"
    using Eb pi_ge_two by (intro cos_monotone_0_pi_le) linarith+
  then have c_lo: "- 31097/100000 \<le> c" unfolding c_def using cos_E1(1) by linarith
  have "cos E1 \<le> cos (18855/10000)"
    using Eb pi_ge_two by (intro cos_monotone_0_pi_le) linarith+
  then have c_hi: "c \<le> - 30953/100000" unfolding c_def using cos_E1(2) by linarith
  have cn_b: "30953/100000 \<le> cn" "cn \<le> 31097/100000"
    unfolding cn_def using c_lo c_hi by linarith+
  have d_eq: "d = 1 + 84823/100000 * cn" by (simp add: d_def cn_def)
  have d_pos: "0 < d" using d_eq cn_b by linarith
  have E2: "keplerLoop 2 (84823/100000) M M = E1 - q"
    unfolding E1_def s_def c_def d_def n_def q_def
    using keplerLoop_Suc_end [of 1 "84823/100000" M M] by (simp add: numeral_2_eq_2)
  \<comment> \<open>lower bound\<close>
  define w where "w = E1 - 13378/10000"
  define p where "p = cn * w"
  have wb: "5477/10000 \<le> w" unfolding w_def using Eb by linarith
  have "30953/100000 * (5477/10000) \<le> p"
    unfolding p_def using cn_b wb by (intro mult_mono) simp_all
  then have pb: "16952/100000 \<le> p" by simp
  have wd: "w * d = w + 84823/100000 * p"
    unfolding p_def d_eq by (simp add: algebra_simps)
  have n_w: "n = w + 13378/10000 - 84823/100000 * s - M" by (simp add: n_def w_def)
  have "n \<le> w * d" unfolding wd using n_w pb s_lo M by linarith
  then have lo: "q \<le> w"
    unfolding q_def using d_pos by (simp only: pos_divide_le_eq)
  \<comment> \<open>upper bound\<close>
  define v where "v = E1 - 13420/10000"
  define r where "r = cn * v"
  have vb: "0 \<le> v" "v \<le> 5450/10000" unfolding v_def using Eb by linarith+
  have "r \<le> 31097/100000 * (5450/10000)"
    unfolding r_def using cn_b vb by (intro mult_mono) simp_all
  then have rb: "r \<le> 16948/100000" by simp
  have vd: "v * d = v + 84823/100000 * r"
    unfolding r_def d_eq by (simp add: algebra_simps)
  have n_v: "n = v + 13420/10000 - 84823/100000 * s - M" by (simp add: n_def v_def)
  have "v * d \<le> n" unfolding vd using n_v rb s_hi M by linarith
  then have hi: "v \<le> q"
    unfolding q_def using d_pos by (simp only: pos_le_divide_eq)
  show "13378/10000 \<le> keplerLoop 2 (84823/100000) M M"
    unfolding E2 using lo w_def by linarith
  show "keplerLoop 2 (84823/100000) M M \<le> 13420/10000"
    unfolding E2 using hi v_def by linarith
qed

lemma root_bracket:
  fixes M :: real
  assumes M: "3897/10000 \<le> M" "M \<le> 3899/10000"
  shows "\<exists>Es. 1171/1000 \<le> Es \<and> Es \<le> 11714/10000 \<and> Es - 84823/100000 * sin Es = M"
proof -
  have lo: "(1171/1000 :: real) - 84823/100000 * sin (1171/1000) \<le> M"
    using sin_root(1) M(1) by linarith
  have hi: "M \<le> 11714/10000 - 84823/100000 * sin (11714/10000)"
    using sin_root(2) M(2) by linarith
  show ?thesis
    using lo hi by (intro IVT allI impI kepler_cont) simp_all
qed

lemma later_round:
  fixes Es E M U cU klo :: real
  assumes Es: "1171/1000 \<le> Es" and root: "Es - 84823/100000 * sin Es = M"
    and E: "Es \<le> E" "E \<le> U" and U: "U \<le> 13420/10000"
    and cU: "cU \<le> cos U"
    and klo: "0 \<le> klo" "klo * (2 * (1 - 84823/100000 * cU)) \<le> 84823/100000 * (92113/100000)"
  shows "Es + klo * (E - Es)^2 \<le> E - (E - 84823/100000 * sin E - M) / (1 - 84823/100000 * cos E)"
    and "E - (E - 84823/100000 * sin E - M) / (1 - 84823/100000 * cos E)
           \<le> Es + 1583/2500 * (E - Es)^2"
proof -
  define d where "d = 1 - 84823/100000 * cos E"
  define h where "h = E - Es"
  have h: "0 \<le> h" unfolding h_def using E by linarith
  have "cos U \<le> cos E"
    using Es E U pi_ge_two by (intro cos_monotone_0_pi_le) linarith+
  then have c_lo: "cU \<le> cos E" using cU by linarith
  have "cos E \<le> cos (1171/1000)"
    using Es E U pi_ge_two by (intro cos_monotone_0_pi_le) linarith+
  then have c_hi: "cos E \<le> 38924/100000" using cos_root by linarith
  have d_lo: "1 - 84823/100000 * (38924/100000) \<le> d" unfolding d_def using c_hi by linarith
  have d_hi: "d \<le> 1 - 84823/100000 * cU" unfolding d_def using c_lo by linarith
  have d_pos: "0 < d" using d_lo by linarith
  have d_ne: "1 - 84823/100000 * cos E \<noteq> 0" using d_pos by (simp add: d_def)
  obtain t where t: "\<bar>t\<bar> \<le> \<bar>Es - E\<bar>"
    and eq: "(E - (E - 84823/100000 * sin E - M) / (1 - 84823/100000 * cos E)) - Es =
         84823/100000 * sin (E + t) * (Es - E)^2 / (2 * (1 - 84823/100000 * cos E))"
    using newton_error [OF root d_ne] by blast
  have tb: "- h \<le> t" "t \<le> h" using t E(1) unfolding h_def by linarith+
  have x_lo: "1171/1000 \<le> E + t" using tb(1) Es unfolding h_def by linarith
  have x_hi: "E + t \<le> pi / 2"
    using tb(2) E Es U pi_enclosure(1) unfolding h_def by linarith
  have "sin (1171/1000) \<le> sin (E + t)"
    using x_lo x_hi pi_ge_two by (intro sin_monotone_2pi_le) linarith+
  then have s_lo: "92113/100000 \<le> sin (E + t)" using sin_root(1) by linarith
  have s_hi: "sin (E + t) \<le> 1" by simp
  define k where "k = 84823/100000 * sin (E + t) / (2 * d)"
  define g where "g = k * (h * h)"
  define Nn where "Nn = E - (E - 84823/100000 * sin E - M) / (1 - 84823/100000 * cos E)"
  have sq: "(Es - E)^2 = h * h" by (simp add: h_def power2_eq_square algebra_simps)
  have sq': "(E - Es)^2 = h * h" by (simp add: h_def power2_eq_square)
  have eq': "Nn - Es = g"
    unfolding Nn_def eq sq g_def k_def d_def by simp
  have hh: "0 \<le> h * h" using h by simp
  have "klo * (2 * d) \<le> klo * (2 * (1 - 84823/100000 * cU))"
    using klo(1) d_hi by (intro mult_left_mono) simp_all
  then have "klo * (2 * d) \<le> 84823/100000 * sin (E + t)" using klo(2) s_lo by linarith
  then have k_lo: "klo \<le> k"
    unfolding k_def using d_pos by (simp add: pos_le_divide_eq)
  have "84823/100000 * sin (E + t) \<le> 1583/2500 * (2 * d)" using d_lo s_hi by linarith
  then have k_hi: "k \<le> 1583/2500"
    unfolding k_def using d_pos by (simp add: pos_divide_le_eq)
  have lo: "klo * (h * h) \<le> g"
    unfolding g_def using k_lo hh by (rule mult_right_mono)
  have hi: "g \<le> 1583/2500 * (h * h)"
    unfolding g_def using k_hi hh by (rule mult_right_mono)
  show "Es + klo * (E - Es)^2 \<le> E - (E - 84823/100000 * sin E - M) / (1 - 84823/100000 * cos E)"
    unfolding sq' Nn_def [symmetric] using eq' lo by linarith
  show "E - (E - 84823/100000 * sin E - M) / (1 - 84823/100000 * cos E)
           \<le> Es + 1583/2500 * (E - Es)^2"
    unfolding sq' Nn_def [symmetric] using eq' hi by linarith
qed

lemma square_between:
  fixes x Es lo hi :: real
  assumes "Es + lo \<le> x" "x \<le> Es + hi" "0 \<le> lo"
  shows "lo * lo \<le> (x - Es)^2" "(x - Es)^2 \<le> hi * hi"
proof -
  have a: "lo \<le> x - Es" "x - Es \<le> hi" "0 \<le> x - Es" using assms by linarith+
  show "lo * lo \<le> (x - Es)^2"
    unfolding power2_eq_square using a assms(3) by (intro mult_mono) simp_all
  show "(x - Es)^2 \<le> hi * hi"
    unfolding power2_eq_square using a by (intro mult_mono) simp_all
qed

lemma sin_below_tangent:
  fixes x h c :: real
  assumes "0 \<le> h" "h \<le> x" "x + h \<le> pi" "cos x \<le> c"
  shows "sin (x + h) - sin x \<le> c * h"
proof -
  obtain t where t: "\<bar>t\<bar> \<le> \<bar>h\<bar>"
    and eq: "sin (x + h) = sin x + h * cos x - (h^2 / 2) * sin (x + t)"
    using sin_second_order [of h x] by blast
  have "0 \<le> x + t" "x + t \<le> pi" using t assms by linarith+
  then have "0 \<le> sin (x + t)" by (rule sin_ge_zero)
  then have "0 \<le> (h^2 / 2) * sin (x + t)" by simp
  then have "sin (x + h) - sin x \<le> h * cos x" unfolding eq by linarith
  also have "h * cos x \<le> h * c" using assms(1,4) by (rule mult_left_mono [rotated])
  finally show ?thesis by (simp add: mult.commute)
qed

lemma encke_band:
  fixes M :: real
  assumes M: "3897/10000 \<le> M" "M \<le> 3899/10000"
  shows "4 / 1000000000 \<le>
    keplerLoop 5 (84823/100000) M M - 84823/100000 * sin (keplerLoop 5 (84823/100000) M M) - M"
proof -
  obtain Es :: real where Es: "1171/1000 \<le> Es" "Es \<le> 11714/10000"
    and root: "Es - 84823/100000 * sin Es = M"
    using root_bracket [OF M] by blast
  define E where "E k = keplerLoop k (84823/100000) M M" for k
  have step: "E (Suc k) = E k - (E k - 84823/100000 * sin (E k) - M) / (1 - 84823/100000 * cos (E k))" for k
    unfolding E_def by (rule keplerLoop_Suc_end)
  have E2: "13378/10000 \<le> E 2" "E 2 \<le> 13420/10000"
    unfolding E_def by (rule second_round [OF M])+
  have a2: "Es + 1664/10000 \<le> E 2" using E2(1) Es(2) by linarith
  have b2: "E 2 \<le> Es + 1710/10000" using E2(2) Es(1) by linarith
  have r2: "Es \<le> E 2" using a2 by linarith
  \<comment> \<open>third round\<close>
  define X2 where "X2 = (E 2 - Es)^2"
  have X2: "1664/10000 * (1664/10000) \<le> X2" "X2 \<le> 1710/10000 * (1710/10000)"
    unfolding X2_def by (rule square_between [OF a2 b2], simp)+
  have E3: "Es + 4837/10000 * X2 \<le> E (Suc 2)" "E (Suc 2) \<le> Es + 1583/2500 * X2"
    unfolding step X2_def
    by (rule later_round(1) [OF Es(1) root r2 E2(2) _ cos_U(1)], simp, simp, simp)
       (rule later_round(2) [where klo = 0, OF Es(1) root r2 E2(2) _ cos_U(1)], simp, simp, simp)
  have a3: "Es + 1339/100000 \<le> E (Suc 2)" using E3(1) X2(1) by simp
  have b3: "E (Suc 2) \<le> Es + 1852/100000" using E3(2) X2(2) by simp
  have r3: "Es \<le> E (Suc 2)" "E (Suc 2) \<le> 119/100" using a3 b3 Es(2) by linarith+
  \<comment> \<open>fourth round\<close>
  define X3 where "X3 = (E (Suc 2) - Es)^2"
  have X3: "1339/100000 * (1339/100000) \<le> X3" "X3 \<le> 1852/100000 * (1852/100000)"
    unfolding X3_def by (rule square_between [OF a3 b3], simp)+
  have E4: "Es + 5705/10000 * X3 \<le> E (Suc (Suc 2))" "E (Suc (Suc 2)) \<le> Es + 1583/2500 * X3"
    unfolding step [of "Suc 2"] X3_def
    by (rule later_round(1) [OF Es(1) root r3 _ cos_U(2)], simp, simp, simp)
       (rule later_round(2) [where klo = 0, OF Es(1) root r3 _ cos_U(2)], simp, simp, simp)
  have a4: "Es + 1022/10000000 \<le> E (Suc (Suc 2))" using E4(1) X3(1) by simp
  have b4: "E (Suc (Suc 2)) \<le> Es + 2172/10000000" using E4(2) X3(2) by simp
  have r4: "Es \<le> E (Suc (Suc 2))" "E (Suc (Suc 2)) \<le> 11717/10000" using a4 b4 Es(2) by linarith+
  \<comment> \<open>fifth round\<close>
  define X4 where "X4 = (E (Suc (Suc 2)) - Es)^2"
  have X4: "1022/10000000 * (1022/10000000) \<le> X4" "X4 \<le> 2172/10000000 * (2172/10000000)"
    unfolding X4_def by (rule square_between [OF a4 b4], simp)+
  have E5: "Es + 5827/10000 * X4 \<le> E (Suc (Suc (Suc 2)))"
      "E (Suc (Suc (Suc 2))) \<le> Es + 1583/2500 * X4"
    unfolding step [of "Suc (Suc 2)"] X4_def
    by (rule later_round(1) [OF Es(1) root r4 _ cos_U(3)], simp, simp, simp)
       (rule later_round(2) [where klo = 0, OF Es(1) root r4 _ cos_U(3)], simp, simp, simp)
  have five: "Suc (Suc (Suc 2)) = 5" by simp
  have a5: "Es + 6086/1000000000000 \<le> E 5" using E5(1) X4(1) unfolding five by simp
  have b5: "E 5 \<le> Es + 3/100000000" using E5(2) X4(2) unfolding five by simp
  \<comment> \<open>the residual\<close>
  define h where "h = E 5 - Es"
  have h: "6086/1000000000000 \<le> h" "h \<le> 3/100000000" unfolding h_def using a5 b5 by linarith+
  have "cos Es \<le> cos (1171/1000)"
    using Es pi_ge_two by (intro cos_monotone_0_pi_le) linarith+
  then have cEs: "cos Es \<le> 38924/100000" using cos_root by linarith
  have "sin (Es + h) - sin Es \<le> 38924/100000 * h"
    using h Es pi_ge_two cEs by (intro sin_below_tangent) linarith+
  then have y: "sin (E 5) - sin Es \<le> 38924/100000 * h" by (simp add: h_def)
  have "E 5 - 84823/100000 * sin (E 5) - M = h - 84823/100000 * sin (E 5) + 84823/100000 * sin Es"
    using root unfolding h_def by linarith
  then have "4 / 1000000000 \<le> E 5 - 84823/100000 * sin (E 5) - M"
    using y h(1) by linarith
  then show ?thesis unfolding E_def .
qed

lemma encke_anomaly:
  "3897/10000 \<le> 2 * pi - (0.10 * pi * 2 + 11583 * ((1 / 3.30) * 0.006 * 0.25))"
  "2 * pi - (0.10 * pi * 2 + 11583 * ((1 / 3.30) * 0.006 * 0.25)) \<le> 3899/10000"
  using pi_enclosure by simp_all

text \<open>
  C1 does not hold of the code: the solver fails it on the comet Encke, the second entry of
  \<open>COMET_DEFS\<close>. Encke's eccentricity 0.84823 is not above 0.9, so the solver gives it 5
  rounds, although its own comment promises comets the 15 (\<open>Uses 15 iterations for high
  eccentricities (comets), 5 for planets\<close>). Encke starts from the mean anomaly \<open>0.2 \<pi>\<close> and
  every frame adds its step times the simulation speed (\<open>comet_frames\<close> below); at the speed
  0.25 the component starts with, the 11583rd frame hands the solver
  \<open>M = 0.2 \<pi> + 11583 / 2200\<close>, about 5.8933 and inside \<open>[0, 2\<pi>)\<close>. For that \<open>M\<close> the returned
  \<open>E\<close> has a residual \<open>|E - e sin E - M|\<close> of at least \<open>4 \<sqdot> 10\<^sup>-\<^sup>9\<close> (it is about
  \<open>5.5 \<sqdot> 10\<^sup>-\<^sup>9\<close>), which is not below \<open>10\<^sup>-\<^sup>9\<close>.
\<close>

theorem kepler_residual_at_encke:
  "let d = COMET_DEFS ! 1;
       M = createComets_meanAnomaly d + 11583 * (createComets_speed d * 0.25);
       E = solveKepler_E M (cd_e d)
   in cd_name d = ''Encke'' \<and> cd_e d = 0.84823 \<and> 0 \<le> cd_e d \<and> cd_e d < 0.97
      \<and> iters (cd_e d) = 5
      \<and> 0 \<le> M \<and> M < 2 * pi
      \<and> 4 / 10^9 \<le> \<bar>E - cd_e d * sin E - M\<bar>
      \<and> \<not> \<bar>E - cd_e d * sin E - M\<bar> < 1 / 10^9"
proof -
  define M' :: real where "M' = 2 * pi - (0.10 * pi * 2 + 11583 * ((1 / 3.30) * 0.006 * 0.25))"
  define M :: real where "M = 0.10 * pi * 2 + 11583 * ((1 / 3.30) * 0.006 * 0.25)"
  define E' where "E' = keplerLoop 5 (84823/100000) M' M'"
  have band: "3897/10000 \<le> M'" "M' \<le> 3899/10000"
    unfolding M'_def by (rule encke_anomaly)+
  have M: "M = 2 * pi - M'" by (simp add: M_def M'_def)
  have range: "0 \<le> M" "M < 2 * pi" using band pi_enclosure unfolding M by linarith+
  have it: "iters (84823/100000) = 5" by (simp add: iters_def)
  have E: "solveKepler_E M (84823/100000) = 2 * pi - E'"
    unfolding solveKepler_E_def it M E'_def by (rule keplerLoop_reflect)
  have "4 / 1000000000 \<le> E' - 84823/100000 * sin E' - M'"
    unfolding E'_def by (rule encke_band [OF band])
  moreover have "(2 * pi - E') - 84823/100000 * sin (2 * pi - E') - M
      = - (E' - 84823/100000 * sin E' - M')"
    unfolding M by simp
  ultimately have "4 / 1000000000 \<le> \<bar>(2 * pi - E') - 84823/100000 * sin (2 * pi - E') - M\<bar>"
    by linarith
  then have res: "4 / 1000000000 \<le> \<bar>solveKepler_E M (84823/100000)
        - 84823/100000 * sin (solveKepler_E M (84823/100000)) - M\<bar>"
    unfolding E by simp
  then have res': "\<not> \<bar>solveKepler_E M (84823/100000)
        - 84823/100000 * sin (solveKepler_E M (84823/100000)) - M\<bar> < 1 / 1000000000"
    by linarith
  have d: "COMET_DEFS ! 1 =
     \<lparr>cd_name = ''Encke'', cd_color = ''#aaffcc'', cd_a = 2.2179, cd_e = 0.84823,
       cd_inc = 11.78, cd_node = 334.57, cd_period = 3.30, cd_radius = 4.8,
       cd_rotPeriod = 11.1, cd_startFraction = 0.10\<rparr>"
    by (simp add: COMET_DEFS_def)
  have e: "(0.84823 :: real) = 84823/100000" by simp
  have Md: "createComets_meanAnomaly (COMET_DEFS ! 1)
      + 11583 * (createComets_speed (COMET_DEFS ! 1) * 0.25) = M"
    unfolding d by (simp add: createComets_meanAnomaly_def createComets_speed_def M_def)
  show ?thesis
    unfolding Let_def Md unfolding d using res res' range it by (simp add: e)
qed


section \<open>Speed steps\<close>

text \<open>
  C2. From speed 0 one \<open>increaseSpeed\<close> gives 0.125; from any speed at or below 0.125 one
  \<open>decreaseSpeed\<close> gives 0; \<open>increaseSpeed\<close> never leaves a speed above 64.
\<close>

theorem speed_control:
  "(simulationSpeed s = 0 \<longrightarrow> simulationSpeed (increaseSpeed s) = 0.125)
   \<and> (simulationSpeed s \<le> 0.125 \<longrightarrow> simulationSpeed (decreaseSpeed s) = 0)
   \<and> simulationSpeed (increaseSpeed s) \<le> 64"
  by (simp add: increaseSpeed_def decreaseSpeed_def Let_def)

theorem speed_control_witness:
  "simulationSpeed exampleScene = 0
   \<and> simulationSpeed (increaseSpeed exampleScene) = 0.125
   \<and> simulationSpeed exampleScene \<le> 0.125
   \<and> simulationSpeed (decreaseSpeed exampleScene) = 0"
  using speed_control [of exampleScene] by (simp add: exampleScene_def)


section \<open>What a frame changes\<close>

lemma animateZoom_frame:
  "planetObjects (animateZoom s) = planetObjects s"
  "cometObjects (animateZoom s) = cometObjects s"
  "moonObjects (animateZoom s) = moonObjects s"
  "sunHitMesh (animateZoom s) = sunHitMesh s"
  "otherHitMeshes (animateZoom s) = otherHitMeshes s"
  "simulationSpeed (animateZoom s) = simulationSpeed s"
  by (simp_all add: animateZoom_def Let_def split: option.splits)

lemma animate_planetObjects:
  "planetObjects (animate ch s) = map (animatePlanet ch s) (planetObjects s)"
  by (simp add: animate_def Let_def animateZoom_frame)

lemma animate_cometObjects:
  "cometObjects (animate ch s) = map (animateComet ch s) (cometObjects s)"
  by (simp add: animate_def Let_def animateZoom_frame)

lemma animate_moonObjects:
  "moonObjects (animate ch s) =
     map (animateMoon s (map (animatePlanet ch s) (planetObjects s))) (moonObjects s)"
  by (simp add: animate_def Let_def animateZoom_frame)

lemma animate_sunHitMesh:
  "sunHitMesh (animate ch s) = map_option (animateSun ch s) (sunHitMesh s)"
  by (simp add: animate_def Let_def animateZoom_frame)

lemma animate_otherHitMeshes:
  "otherHitMeshes (animate ch s) = otherHitMeshes s"
  by (simp add: animate_def Let_def animateZoom_frame)

text \<open>What \<open>n\<close> frames make of a comet's mean anomaly: its step times the simulation speed is
  added \<open>n\<close> times, and its eccentricity and step stay.\<close>

lemma animate_simulationSpeed: "simulationSpeed (animate ch s) = simulationSpeed s"
  by (simp add: animate_def Let_def animateZoom_frame)

lemma animateComet_anomaly:
  "(c_e (animateComet ch s obj), c_speed (animateComet ch s obj),
    c_meanAnomaly (animateComet ch s obj)) =
   (c_e obj, c_speed obj, c_meanAnomaly obj + c_speed obj * simulationSpeed s)"
  by (simp add: animateComet_def Let_def)

lemma comet_frames:
  "map (\<lambda>obj. (c_e obj, c_speed obj, c_meanAnomaly obj)) (cometObjects ((animate ch ^^ n) s)) =
   map (\<lambda>obj. (c_e obj, c_speed obj, c_meanAnomaly obj + real n * (c_speed obj * simulationSpeed s)))
     (cometObjects s)"
proof (induction n)
  case 0
  show ?case by simp
next
  case (Suc n)
  define x where "x = (animate ch ^^ n) s"
  have v: "simulationSpeed x = simulationSpeed s"
    unfolding x_def by (induction n) (simp_all add: animate_simulationSpeed)
  have "map (\<lambda>obj. (c_e obj, c_speed obj, c_meanAnomaly obj)) (cometObjects (animate ch x)) =
      map (\<lambda>(e, sp, M). (e, sp, M + sp * simulationSpeed s))
        (map (\<lambda>obj. (c_e obj, c_speed obj, c_meanAnomaly obj)) (cometObjects x))"
    by (simp add: animate_cometObjects animateComet_anomaly v comp_def)
  also have "\<dots> = map (\<lambda>(e, sp, M). (e, sp, M + sp * simulationSpeed s))
        (map (\<lambda>obj. (c_e obj, c_speed obj,
            c_meanAnomaly obj + real n * (c_speed obj * simulationSpeed s))) (cometObjects s))"
    using Suc.IH by (simp add: x_def)
  also have "\<dots> = map (\<lambda>obj. (c_e obj, c_speed obj,
            c_meanAnomaly obj + real (Suc n) * (c_speed obj * simulationSpeed s))) (cometObjects s)"
    by (simp add: comp_def algebra_simps)
  finally show ?case by (simp add: x_def)
qed

lemma animatePlanet_hit:
  "5 * hit_scale (p_hitMesh (animatePlanet ch s obj)) =
     (30 / (if ch / 2 = 0 then 1 else ch / 2))
       * v3_distanceTo (camera_position s) (hit_position (p_hitMesh (animatePlanet ch s obj)))
       * tan (camera_fov s * pi / 360)"
  by (simp add: animatePlanet_def Let_def HIT_RADIUS_def hitWorldR_def HIT_PX_def halfH_def
      tanHalfFov_def)

lemma animateComet_hit:
  "5 * hit_scale (c_hitMesh (animateComet ch s obj)) =
     (30 / (if ch / 2 = 0 then 1 else ch / 2))
       * v3_distanceTo (camera_position s) (hit_position (c_hitMesh (animateComet ch s obj)))
       * tan (camera_fov s * pi / 360)"
  by (simp add: animateComet_def Let_def HIT_RADIUS_def hitWorldR_def HIT_PX_def halfH_def
      tanHalfFov_def)

lemma animateSun_hit:
  "5 * hit_scale (animateSun ch s h) =
     (30 / (if ch / 2 = 0 then 1 else ch / 2))
       * v3_distanceTo (camera_position s) (Vector3 0 0 0)
       * tan (camera_fov s * pi / 360)"
  by (simp add: animateSun_def Let_def HIT_RADIUS_def hitWorldR_def HIT_PX_def halfH_def
      tanHalfFov_def)

text \<open>The same frame from another camera position: the body is put at the same place.\<close>

lemma animatePlanet_camera:
  "hit_position (p_hitMesh (animatePlanet ch (s\<lparr>camera_position := cam\<rparr>) obj)) =
     hit_position (p_hitMesh (animatePlanet ch s obj))"
  by (simp add: animatePlanet_def Let_def keplerToWorld_def)

lemma animateComet_camera:
  "hit_position (c_hitMesh (animateComet ch (s\<lparr>camera_position := cam\<rparr>) obj)) =
     hit_position (c_hitMesh (animateComet ch s obj))"
  by (simp add: animateComet_def Let_def keplerCometToWorld_def)

lemma animate_frames_otherHitMeshes:
  "otherHitMeshes ((animate ch ^^ k) s) = otherHitMeshes s"
  by (induction k) (simp_all add: animate_otherHitMeshes)

lemma keplerToWorld_animatePlanet:
  "keplerToWorld (animatePlanet ch s obj) =
     keplerToWorld (obj\<lparr>p_meanAnomaly := p_meanAnomaly obj + p_speed obj * simulationSpeed s\<rparr>)"
  by (simp add: animatePlanet_def keplerToWorld_def Let_def)

lemma animatePlanet_position:
  "position (p_mesh (animatePlanet ch s obj)) = keplerToWorld (animatePlanet ch s obj)"
  "hit_position (p_hitMesh (animatePlanet ch s obj)) = keplerToWorld (animatePlanet ch s obj)"
  "p_ring (animatePlanet ch s obj) =
     map_option (\<lambda>_. keplerToWorld (animatePlanet ch s obj)) (p_ring obj)"
  unfolding keplerToWorld_animatePlanet by (simp_all add: animatePlanet_def Let_def)

lemma keplerCometToWorld_animateComet:
  "keplerCometToWorld (animateComet ch s obj) =
     keplerCometToWorld (obj\<lparr>c_meanAnomaly := c_meanAnomaly obj + c_speed obj * simulationSpeed s\<rparr>)"
  by (simp add: animateComet_def keplerCometToWorld_def Let_def)

lemma animateComet_position:
  "position (c_mesh (animateComet ch s obj)) = keplerCometToWorld (animateComet ch s obj)"
  "hit_position (c_hitMesh (animateComet ch s obj)) = keplerCometToWorld (animateComet ch s obj)"
  "c_tailLine_position (animateComet ch s obj) = keplerCometToWorld (animateComet ch s obj)"
  unfolding keplerCometToWorld_animateComet by (simp_all add: animateComet_def Let_def)

lemma animateMoon_position:
  "m_parentPlanetObj (animateMoon s ps obj) = m_parentPlanetObj obj"
  "m_orbitLine_position (animateMoon s ps obj) = position (p_mesh (ps ! m_parentPlanetObj obj))"
  "position (m_mesh (animateMoon s ps obj)) =
     moonOffset (animateMoon s ps obj) (position (p_mesh (ps ! m_parentPlanetObj obj)))"
  by (simp_all add: animateMoon_def moonOffset_def Let_def)

text \<open>Every frame leaves the bodies placed, provided each moon's parent exists.\<close>

lemma animate_placed:
  assumes "\<forall>obj \<in> set (moonObjects s). m_parentPlanetObj obj < length (planetObjects s)"
  shows "placed (animate ch s)"
  unfolding placed_def animate_planetObjects animate_cometObjects animate_moonObjects
  using assms
  by (auto simp: animatePlanet_position animateComet_position animateMoon_position
      split: option.splits)

lemma placed_exampleScene: "placed exampleScene"
  by (simp add: placed_def exampleScene_def exampleJupiter_def exampleIo_def exampleHalley_def
      moonOffset_def keplerToWorld_def keplerCometToWorld_def solveKepler_def keplerLoop_zero
      Let_def)

lemma animatePlanet_paused:
  assumes "simulationSpeed s = 0"
    and "position (p_mesh obj) = keplerToWorld obj"
    and "hit_position (p_hitMesh obj) = keplerToWorld obj"
    and "case p_ring obj of None \<Rightarrow> True | Some r \<Rightarrow> r = keplerToWorld obj"
  shows "p_meanAnomaly (animatePlanet ch s obj) = p_meanAnomaly obj"
    and "position (p_mesh (animatePlanet ch s obj)) = position (p_mesh obj)"
    and "hit_position (p_hitMesh (animatePlanet ch s obj)) = hit_position (p_hitMesh obj)"
    and "p_ring (animatePlanet ch s obj) = p_ring obj"
    and "rotation_y (p_mesh (animatePlanet ch s obj)) =
           rotation_y (p_mesh obj) + p_rotationDir obj * 0.005"
  using assms
  by (auto simp: animatePlanet_def keplerToWorld_def Let_def split: option.splits)

lemma animateComet_paused:
  assumes "simulationSpeed s = 0"
    and "position (c_mesh obj) = keplerCometToWorld obj"
    and "hit_position (c_hitMesh obj) = keplerCometToWorld obj"
    and "c_tailLine_position obj = keplerCometToWorld obj"
  shows "c_meanAnomaly (animateComet ch s obj) = c_meanAnomaly obj"
    and "position (c_mesh (animateComet ch s obj)) = position (c_mesh obj)"
    and "hit_position (c_hitMesh (animateComet ch s obj)) = hit_position (c_hitMesh obj)"
    and "c_tailLine_position (animateComet ch s obj) = c_tailLine_position obj"
    and "rotation_y (c_mesh (animateComet ch s obj)) = rotation_y (c_mesh obj) + 0.003"
  using assms
  by (auto simp: animateComet_def keplerCometToWorld_def Let_def)

lemma animateMoon_paused:
  assumes "simulationSpeed s = 0"
    and "position (p_mesh (ps ! m_parentPlanetObj obj)) = pp"
    and "m_orbitLine_position obj = pp"
    and "position (m_mesh obj) = moonOffset obj pp"
  shows "m_angle (animateMoon s ps obj) = m_angle obj"
    and "position (m_mesh (animateMoon s ps obj)) = position (m_mesh obj)"
    and "m_orbitLine_position (animateMoon s ps obj) = m_orbitLine_position obj"
  using assms
  by (auto simp: animateMoon_def moonOffset_def Let_def)

text \<open>
  C6. After a frame, the world radius of every planet's and comet's hit proxy and of the Sun's
  (the radius 5 of the proxy's sphere times its scale) is
  \<open>(30 / halfH) * distance * tan (fov * pi / 360)\<close>: \<open>halfH\<close> is half the canvas height, or 1
  when that is 0, \<open>fov\<close> is the camera's field of view in degrees, and the distance is taken
  from the camera, where the frame found it, to the body's new position, or to the origin for
  the Sun. The radius is linear in the distance: the same frame run with the camera at another
  position \<open>cam2\<close> (same field of view, same canvas) gives radii that are to each other as the
  two distances. The asteroid-belt ring and the Oort sphere are left as they were by every
  frame.
\<close>

theorem hit_proxy_rescaling:
  "(\<forall>obj \<in> set (planetObjects (animate ch s)).
       5 * hit_scale (p_hitMesh obj) =
         (30 / (if ch / 2 = 0 then 1 else ch / 2))
           * v3_distanceTo (camera_position s) (hit_position (p_hitMesh obj))
           * tan (camera_fov s * pi / 360))
   \<and> (\<forall>obj \<in> set (cometObjects (animate ch s)).
       5 * hit_scale (c_hitMesh obj) =
         (30 / (if ch / 2 = 0 then 1 else ch / 2))
           * v3_distanceTo (camera_position s) (hit_position (c_hitMesh obj))
           * tan (camera_fov s * pi / 360))
   \<and> (\<forall>h. sunHitMesh (animate ch s) = Some h \<longrightarrow>
       5 * hit_scale h =
         (30 / (if ch / 2 = 0 then 1 else ch / 2))
           * v3_distanceTo (camera_position s) (Vector3 0 0 0)
           * tan (camera_fov s * pi / 360))
   \<and> (\<forall>i < length (planetObjects s).
       5 * hit_scale (p_hitMesh (planetObjects (animate ch s) ! i))
         * v3_distanceTo cam2 (hit_position (p_hitMesh (planetObjects (animate ch s) ! i))) =
       5 * hit_scale (p_hitMesh (planetObjects (animate ch (s\<lparr>camera_position := cam2\<rparr>)) ! i))
         * v3_distanceTo (camera_position s)
             (hit_position (p_hitMesh (planetObjects (animate ch s) ! i))))
   \<and> (\<forall>i < length (cometObjects s).
       5 * hit_scale (c_hitMesh (cometObjects (animate ch s) ! i))
         * v3_distanceTo cam2 (hit_position (c_hitMesh (cometObjects (animate ch s) ! i))) =
       5 * hit_scale (c_hitMesh (cometObjects (animate ch (s\<lparr>camera_position := cam2\<rparr>)) ! i))
         * v3_distanceTo (camera_position s)
             (hit_position (c_hitMesh (cometObjects (animate ch s) ! i))))
   \<and> (\<forall>h1 h2. sunHitMesh (animate ch s) = Some h1
         \<and> sunHitMesh (animate ch (s\<lparr>camera_position := cam2\<rparr>)) = Some h2 \<longrightarrow>
       5 * hit_scale h1 * v3_distanceTo cam2 (Vector3 0 0 0) =
       5 * hit_scale h2 * v3_distanceTo (camera_position s) (Vector3 0 0 0))
   \<and> otherHitMeshes ((animate ch ^^ k) s) = otherHitMeshes s"
proof -
  have p: "\<forall>obj \<in> set (planetObjects (animate ch s)).
       5 * hit_scale (p_hitMesh obj) =
         (30 / (if ch / 2 = 0 then 1 else ch / 2))
           * v3_distanceTo (camera_position s) (hit_position (p_hitMesh obj))
           * tan (camera_fov s * pi / 360)"
  proof (intro ballI)
    fix obj assume "obj \<in> set (planetObjects (animate ch s))"
    then obtain obj0 where "obj = animatePlanet ch s obj0"
      unfolding animate_planetObjects by auto
    then show "5 * hit_scale (p_hitMesh obj) =
         (30 / (if ch / 2 = 0 then 1 else ch / 2))
           * v3_distanceTo (camera_position s) (hit_position (p_hitMesh obj))
           * tan (camera_fov s * pi / 360)"
      by (simp only: animatePlanet_hit)
  qed
  have c: "\<forall>obj \<in> set (cometObjects (animate ch s)).
       5 * hit_scale (c_hitMesh obj) =
         (30 / (if ch / 2 = 0 then 1 else ch / 2))
           * v3_distanceTo (camera_position s) (hit_position (c_hitMesh obj))
           * tan (camera_fov s * pi / 360)"
  proof (intro ballI)
    fix obj assume "obj \<in> set (cometObjects (animate ch s))"
    then obtain obj0 where "obj = animateComet ch s obj0"
      unfolding animate_cometObjects by auto
    then show "5 * hit_scale (c_hitMesh obj) =
         (30 / (if ch / 2 = 0 then 1 else ch / 2))
           * v3_distanceTo (camera_position s) (hit_position (c_hitMesh obj))
           * tan (camera_fov s * pi / 360)"
      by (simp only: animateComet_hit)
  qed
  have u: "\<forall>h. sunHitMesh (animate ch s) = Some h \<longrightarrow>
       5 * hit_scale h =
         (30 / (if ch / 2 = 0 then 1 else ch / 2))
           * v3_distanceTo (camera_position s) (Vector3 0 0 0)
           * tan (camera_fov s * pi / 360)"
  proof (intro allI impI)
    fix h assume "sunHitMesh (animate ch s) = Some h"
    then obtain h0 where "h = animateSun ch s h0"
      unfolding animate_sunHitMesh by auto
    then show "5 * hit_scale h =
         (30 / (if ch / 2 = 0 then 1 else ch / 2))
           * v3_distanceTo (camera_position s) (Vector3 0 0 0)
           * tan (camera_fov s * pi / 360)"
      by (simp only: animateSun_hit)
  qed
  have pr: "\<forall>i < length (planetObjects s).
       5 * hit_scale (p_hitMesh (planetObjects (animate ch s) ! i))
         * v3_distanceTo cam2 (hit_position (p_hitMesh (planetObjects (animate ch s) ! i))) =
       5 * hit_scale (p_hitMesh (planetObjects (animate ch (s\<lparr>camera_position := cam2\<rparr>)) ! i))
         * v3_distanceTo (camera_position s)
             (hit_position (p_hitMesh (planetObjects (animate ch s) ! i)))"
  proof (intro allI impI)
    fix i assume i: "i < length (planetObjects s)"
    define obj where "obj = planetObjects s ! i"
    have a: "planetObjects (animate ch s) ! i = animatePlanet ch s obj"
      using i by (simp add: animate_planetObjects obj_def)
    have b: "planetObjects (animate ch (s\<lparr>camera_position := cam2\<rparr>)) ! i =
        animatePlanet ch (s\<lparr>camera_position := cam2\<rparr>) obj"
      using i by (simp add: animate_planetObjects obj_def)
    show "5 * hit_scale (p_hitMesh (planetObjects (animate ch s) ! i))
         * v3_distanceTo cam2 (hit_position (p_hitMesh (planetObjects (animate ch s) ! i))) =
       5 * hit_scale (p_hitMesh (planetObjects (animate ch (s\<lparr>camera_position := cam2\<rparr>)) ! i))
         * v3_distanceTo (camera_position s)
             (hit_position (p_hitMesh (planetObjects (animate ch s) ! i)))"
      unfolding a b animatePlanet_hit by (simp add: animatePlanet_camera)
  qed
  have cr: "\<forall>i < length (cometObjects s).
       5 * hit_scale (c_hitMesh (cometObjects (animate ch s) ! i))
         * v3_distanceTo cam2 (hit_position (c_hitMesh (cometObjects (animate ch s) ! i))) =
       5 * hit_scale (c_hitMesh (cometObjects (animate ch (s\<lparr>camera_position := cam2\<rparr>)) ! i))
         * v3_distanceTo (camera_position s)
             (hit_position (c_hitMesh (cometObjects (animate ch s) ! i)))"
  proof (intro allI impI)
    fix i assume i: "i < length (cometObjects s)"
    define obj where "obj = cometObjects s ! i"
    have a: "cometObjects (animate ch s) ! i = animateComet ch s obj"
      using i by (simp add: animate_cometObjects obj_def)
    have b: "cometObjects (animate ch (s\<lparr>camera_position := cam2\<rparr>)) ! i =
        animateComet ch (s\<lparr>camera_position := cam2\<rparr>) obj"
      using i by (simp add: animate_cometObjects obj_def)
    show "5 * hit_scale (c_hitMesh (cometObjects (animate ch s) ! i))
         * v3_distanceTo cam2 (hit_position (c_hitMesh (cometObjects (animate ch s) ! i))) =
       5 * hit_scale (c_hitMesh (cometObjects (animate ch (s\<lparr>camera_position := cam2\<rparr>)) ! i))
         * v3_distanceTo (camera_position s)
             (hit_position (c_hitMesh (cometObjects (animate ch s) ! i)))"
      unfolding a b animateComet_hit by (simp add: animateComet_camera)
  qed
  have ur: "\<forall>h1 h2. sunHitMesh (animate ch s) = Some h1
         \<and> sunHitMesh (animate ch (s\<lparr>camera_position := cam2\<rparr>)) = Some h2 \<longrightarrow>
       5 * hit_scale h1 * v3_distanceTo cam2 (Vector3 0 0 0) =
       5 * hit_scale h2 * v3_distanceTo (camera_position s) (Vector3 0 0 0)"
  proof (intro allI impI)
    fix h1 h2
    assume "sunHitMesh (animate ch s) = Some h1
         \<and> sunHitMesh (animate ch (s\<lparr>camera_position := cam2\<rparr>)) = Some h2"
    then obtain h0 where h: "h1 = animateSun ch s h0"
        "h2 = animateSun ch (s\<lparr>camera_position := cam2\<rparr>) h0"
      unfolding animate_sunHitMesh by auto
    show "5 * hit_scale h1 * v3_distanceTo cam2 (Vector3 0 0 0) =
       5 * hit_scale h2 * v3_distanceTo (camera_position s) (Vector3 0 0 0)"
      unfolding h animateSun_hit by simp
  qed
  from p c u pr cr ur animate_frames_otherHitMeshes show ?thesis by blast
qed

theorem hit_proxy_rescaling_witness:
  "animatePlanet 800 exampleScene exampleJupiter \<in> set (planetObjects (animate 800 exampleScene))
   \<and> 5 * hit_scale (p_hitMesh (animatePlanet 800 exampleScene exampleJupiter)) =
       (30 / 400)
         * v3_distanceTo (Vector3 0 0 1800)
             (hit_position (p_hitMesh (animatePlanet 800 exampleScene exampleJupiter)))
         * tan (55 * pi / 360)
   \<and> animateComet 800 exampleScene exampleHalley \<in> set (cometObjects (animate 800 exampleScene))
   \<and> 5 * hit_scale (c_hitMesh (animateComet 800 exampleScene exampleHalley)) =
       (30 / 400)
         * v3_distanceTo (Vector3 0 0 1800)
             (hit_position (c_hitMesh (animateComet 800 exampleScene exampleHalley)))
         * tan (55 * pi / 360)
   \<and> sunHitMesh (animate 800 exampleScene) = Some (animateSun 800 exampleScene exampleSunHit)
   \<and> 5 * hit_scale (animateSun 800 exampleScene exampleSunHit) =
       (30 / 400) * 1800 * tan (55 * pi / 360)
   \<and> 0 < length (planetObjects exampleScene) \<and> 0 < length (cometObjects exampleScene)
   \<and> sunHitMesh (animate 800 exampleSceneFar) = Some (animateSun 800 exampleSceneFar exampleSunHit)
   \<and> 5 * hit_scale (animateSun 800 exampleScene exampleSunHit) * 1801 =
       5 * hit_scale (animateSun 800 exampleSceneFar exampleSunHit) * 1800
   \<and> otherHitMeshes ((animate 800 ^^ 3) exampleScene) = [exampleOortSphere]"
proof -
  have p: "animatePlanet 800 exampleScene exampleJupiter \<in> set (planetObjects (animate 800 exampleScene))"
    by (simp add: animate_planetObjects) (simp add: exampleScene_def)
  have c: "animateComet 800 exampleScene exampleHalley \<in> set (cometObjects (animate 800 exampleScene))"
    by (simp add: animate_cometObjects) (simp add: exampleScene_def)
  have u: "sunHitMesh (animate 800 exampleScene) = Some (animateSun 800 exampleScene exampleSunHit)"
    by (simp add: animate_sunHitMesh) (simp add: exampleScene_def)
  have far: "exampleScene\<lparr>camera_position := Vector3 0 0 1801\<rparr> = exampleSceneFar"
    by (simp add: exampleSceneFar_def)
  have u2: "sunHitMesh (animate 800 exampleSceneFar) = Some (animateSun 800 exampleSceneFar exampleSunHit)"
    by (simp add: animate_sunHitMesh) (simp add: exampleSceneFar_def exampleScene_def)
  have o: "otherHitMeshes exampleScene = [exampleOortSphere]"
    by (simp add: exampleScene_def)
  have l: "0 < length (planetObjects exampleScene)" "0 < length (cometObjects exampleScene)"
    by (simp_all add: exampleScene_def)
  have cam: "camera_position exampleScene = Vector3 0 0 1800" "camera_fov exampleScene = 55"
    by (simp_all add: exampleScene_def)
  have d: "v3_distanceTo (Vector3 0 0 1800) (Vector3 0 0 0) = 1800"
    "v3_distanceTo (Vector3 0 0 1801) (Vector3 0 0 0) = 1801"
    by (simp_all add: v3_distanceTo_def)
  show ?thesis
    using hit_proxy_rescaling [of 800 exampleScene "Vector3 0 0 1801" 3] p c u u2 o l
    unfolding far cam d by auto
qed

text \<open>
  C10. A frame at simulation speed 0, on a placed scene, changes no planet's or comet's mean
  anomaly, no moon's angle and no position (planet mesh, hit mesh and ring; comet mesh, hit
  mesh and tail line; moon mesh and orbit line; the Sun's hit mesh, the belt ring and the Oort
  sphere); but every planet's \<open>rotation.y\<close> has advanced by \<open>rotationDir * 0.005\<close> and every
  comet's by \<open>0.003\<close>. The scene is placed again after the frame.
\<close>

theorem paused_frame:
  assumes "simulationSpeed s = 0" and "placed s"
  shows "map p_meanAnomaly (planetObjects (animate ch s)) = map p_meanAnomaly (planetObjects s)
    \<and> map c_meanAnomaly (cometObjects (animate ch s)) = map c_meanAnomaly (cometObjects s)
    \<and> map m_angle (moonObjects (animate ch s)) = map m_angle (moonObjects s)
    \<and> map (\<lambda>obj. (position (p_mesh obj), hit_position (p_hitMesh obj), p_ring obj))
          (planetObjects (animate ch s)) =
       map (\<lambda>obj. (position (p_mesh obj), hit_position (p_hitMesh obj), p_ring obj))
          (planetObjects s)
    \<and> map (\<lambda>obj. (position (c_mesh obj), hit_position (c_hitMesh obj), c_tailLine_position obj))
          (cometObjects (animate ch s)) =
       map (\<lambda>obj. (position (c_mesh obj), hit_position (c_hitMesh obj), c_tailLine_position obj))
          (cometObjects s)
    \<and> map (\<lambda>obj. (position (m_mesh obj), m_orbitLine_position obj)) (moonObjects (animate ch s)) =
       map (\<lambda>obj. (position (m_mesh obj), m_orbitLine_position obj)) (moonObjects s)
    \<and> map_option hit_position (sunHitMesh (animate ch s)) = map_option hit_position (sunHitMesh s)
    \<and> map hit_position (otherHitMeshes (animate ch s)) = map hit_position (otherHitMeshes s)
    \<and> map (\<lambda>obj. rotation_y (p_mesh obj)) (planetObjects (animate ch s)) =
       map (\<lambda>obj. rotation_y (p_mesh obj) + p_rotationDir obj * 0.005) (planetObjects s)
    \<and> map (\<lambda>obj. rotation_y (c_mesh obj)) (cometObjects (animate ch s)) =
       map (\<lambda>obj. rotation_y (c_mesh obj) + 0.003) (cometObjects s)
    \<and> placed (animate ch s)"
proof -
  have P: "\<forall>obj \<in> set (planetObjects s).
        position (p_mesh obj) = keplerToWorld obj
        \<and> hit_position (p_hitMesh obj) = keplerToWorld obj
        \<and> (case p_ring obj of None \<Rightarrow> True | Some r \<Rightarrow> r = keplerToWorld obj)"
    using assms(2) by (simp add: placed_def)
  have C: "\<forall>obj \<in> set (cometObjects s).
        position (c_mesh obj) = keplerCometToWorld obj
        \<and> hit_position (c_hitMesh obj) = keplerCometToWorld obj
        \<and> c_tailLine_position obj = keplerCometToWorld obj"
    using assms(2) by (simp add: placed_def)
  have M: "\<forall>obj \<in> set (moonObjects s).
        m_parentPlanetObj obj < length (planetObjects s)
        \<and> m_orbitLine_position obj = position (p_mesh (planetObjects s ! m_parentPlanetObj obj))
        \<and> position (m_mesh obj) =
            moonOffset obj (position (p_mesh (planetObjects s ! m_parentPlanetObj obj)))"
    using assms(2) by (simp add: placed_def)
  have parent: "position (p_mesh (map (animatePlanet ch s) (planetObjects s) ! i)) =
      position (p_mesh (planetObjects s ! i))" if "i < length (planetObjects s)" for i
    using that P animatePlanet_paused(2) [OF assms(1)] by simp
  have 1: "map p_meanAnomaly (planetObjects (animate ch s)) = map p_meanAnomaly (planetObjects s)"
    unfolding animate_planetObjects using P animatePlanet_paused(1) [OF assms(1)] by simp
  have 2: "map c_meanAnomaly (cometObjects (animate ch s)) = map c_meanAnomaly (cometObjects s)"
    unfolding animate_cometObjects using C animateComet_paused(1) [OF assms(1)] by simp
  have 3: "map m_angle (moonObjects (animate ch s)) = map m_angle (moonObjects s)"
    unfolding animate_moonObjects using assms(1) by (simp add: animateMoon_def Let_def)
  have 4: "map (\<lambda>obj. (position (p_mesh obj), hit_position (p_hitMesh obj), p_ring obj))
          (planetObjects (animate ch s)) =
       map (\<lambda>obj. (position (p_mesh obj), hit_position (p_hitMesh obj), p_ring obj))
          (planetObjects s)"
    unfolding animate_planetObjects using P animatePlanet_paused(2,3,4) [OF assms(1)] by simp
  have 5: "map (\<lambda>obj. (position (c_mesh obj), hit_position (c_hitMesh obj), c_tailLine_position obj))
          (cometObjects (animate ch s)) =
       map (\<lambda>obj. (position (c_mesh obj), hit_position (c_hitMesh obj), c_tailLine_position obj))
          (cometObjects s)"
    unfolding animate_cometObjects using C animateComet_paused(2,3,4) [OF assms(1)] by simp
  have 6: "map (\<lambda>obj. (position (m_mesh obj), m_orbitLine_position obj)) (moonObjects (animate ch s)) =
       map (\<lambda>obj. (position (m_mesh obj), m_orbitLine_position obj)) (moonObjects s)"
    unfolding animate_moonObjects
    using M parent animateMoon_paused(2,3) [OF assms(1)] by simp
  have 7: "map_option hit_position (sunHitMesh (animate ch s)) = map_option hit_position (sunHitMesh s)"
    unfolding animate_sunHitMesh by (cases "sunHitMesh s") (simp_all add: animateSun_def Let_def)
  have 8: "map hit_position (otherHitMeshes (animate ch s)) = map hit_position (otherHitMeshes s)"
    by (simp add: animate_otherHitMeshes)
  have 9: "map (\<lambda>obj. rotation_y (p_mesh obj)) (planetObjects (animate ch s)) =
       map (\<lambda>obj. rotation_y (p_mesh obj) + p_rotationDir obj * 0.005) (planetObjects s)"
    unfolding animate_planetObjects by (simp add: animatePlanet_def Let_def)
  have 10: "map (\<lambda>obj. rotation_y (c_mesh obj)) (cometObjects (animate ch s)) =
       map (\<lambda>obj. rotation_y (c_mesh obj) + 0.003) (cometObjects s)"
    unfolding animate_cometObjects by (simp add: animateComet_def Let_def)
  have 11: "placed (animate ch s)"
    using M by (intro animate_placed) blast
  from 1 2 3 4 5 6 7 8 9 10 11 show ?thesis by blast
qed

theorem paused_frame_witness:
  "simulationSpeed exampleScene = 0 \<and> placed exampleScene
   \<and> map p_meanAnomaly (planetObjects (animate 800 exampleScene)) = [0]
   \<and> map c_meanAnomaly (cometObjects (animate 800 exampleScene)) = [0]
   \<and> map m_angle (moonObjects (animate 800 exampleScene)) = [0]
   \<and> map (\<lambda>obj. position (m_mesh obj)) (moonObjects (animate 800 exampleScene)) =
        [Vector3 (182.14 * (1 - 0.049) + 4.8) 0 0]
   \<and> map (\<lambda>obj. rotation_y (p_mesh obj)) (planetObjects (animate 800 exampleScene)) = [0.005]
   \<and> map (\<lambda>obj. rotation_y (c_mesh obj)) (cometObjects (animate 800 exampleScene)) = [0.003]"
proof -
  have z: "simulationSpeed exampleScene = 0" by (simp add: exampleScene_def)
  have a: "map p_meanAnomaly (planetObjects exampleScene) = [0]"
    "map c_meanAnomaly (cometObjects exampleScene) = [0]"
    "map m_angle (moonObjects exampleScene) = [0]"
    "map (\<lambda>obj. (position (m_mesh obj), m_orbitLine_position obj)) (moonObjects exampleScene) =
       [(Vector3 (182.14 * (1 - 0.049) + 4.8) 0 0, Vector3 (182.14 * (1 - 0.049)) 0 0)]"
    "map (\<lambda>obj. rotation_y (p_mesh obj) + p_rotationDir obj * 0.005) (planetObjects exampleScene) = [0.005]"
    "map (\<lambda>obj. rotation_y (c_mesh obj) + 0.003) (cometObjects exampleScene) = [0.003]"
    by (simp_all add: exampleScene_def exampleJupiter_def exampleHalley_def exampleIo_def)
  have m: "map (\<lambda>obj. position (m_mesh obj)) (moonObjects (animate 800 exampleScene)) =
      map fst (map (\<lambda>obj. (position (m_mesh obj), m_orbitLine_position obj))
                 (moonObjects (animate 800 exampleScene)))"
    by (simp add: comp_def)
  show ?thesis
    using paused_frame [OF z placed_exampleScene, of 800] z placed_exampleScene a m
    by simp
qed

text \<open>
  C7. The point \<open>solveKepler\<close> forms from an eccentric anomaly \<open>E\<close> is the point the loop of
  \<open>createOrbitLine\<close> forms at \<open>E\<close>, for every \<open>E\<close> and every orbit descriptor; the polyline
  has 256 points, the \<open>i\<close>-th at \<open>E = 2 \<pi> i / 256\<close>; so what \<open>solveKepler\<close> returns, and with
  it the position of every planet and comet after a frame, is the polyline's parametric point
  at the eccentric anomaly the solver ended with.
\<close>

theorem orbit_polyline_same_transform:
  "solveKepler_point E a b e cosNode sinNode cosInc sinInc =
     orbitLine_point a b e cosNode sinNode cosInc sinInc E
   \<and> solveKepler M a b e cosNode sinNode cosInc sinInc =
       orbitLine_point a b e cosNode sinNode cosInc sinInc (solveKepler_E M e)
   \<and> length (createOrbitLine a b e cosNode sinNode cosInc sinInc) = 256
   \<and> (\<forall>i < 256. createOrbitLine a b e cosNode sinNode cosInc sinInc ! i =
         solveKepler_point ((real i / 256) * pi * 2) a b e cosNode sinNode cosInc sinInc)
   \<and> (\<forall>obj \<in> set (planetObjects (animate ch s)).
         position (p_mesh obj) =
           orbitLine_point (p_a obj) (p_b obj) (p_e obj) (p_cosNode obj) (p_sinNode obj)
             (p_cosInc obj) (p_sinInc obj) (solveKepler_E (p_meanAnomaly obj) (p_e obj)))
   \<and> (\<forall>obj \<in> set (cometObjects (animate ch s)).
         position (c_mesh obj) =
           orbitLine_point (c_a obj) (c_b obj) (c_e obj) (c_cosNode obj) (c_sinNode obj)
             (c_cosInc obj) (c_sinInc obj) (solveKepler_E (c_meanAnomaly obj) (c_e obj)))"
proof -
  have 1: "solveKepler_point E a b e cosNode sinNode cosInc sinInc =
     orbitLine_point a b e cosNode sinNode cosInc sinInc E" for E a b e cosNode sinNode cosInc sinInc
    by (simp add: solveKepler_point_def orbitLine_point_def)
  have 2: "solveKepler M a b e cosNode sinNode cosInc sinInc =
       orbitLine_point a b e cosNode sinNode cosInc sinInc (solveKepler_E M e)"
    for M a b e cosNode sinNode cosInc sinInc
    by (simp add: solveKepler_def orbitLine_point_def solveKepler_E_def Let_def)
  have 3: "length (createOrbitLine a b e cosNode sinNode cosInc sinInc) = 256"
    by (simp add: createOrbitLine_def orbitLine_N_def)
  have 4: "\<forall>i < 256. createOrbitLine a b e cosNode sinNode cosInc sinInc ! i =
         solveKepler_point ((real i / 256) * pi * 2) a b e cosNode sinNode cosInc sinInc"
    by (simp add: createOrbitLine_def orbitLine_N_def 1)
  have 5: "\<forall>obj \<in> set (planetObjects (animate ch s)).
         position (p_mesh obj) =
           orbitLine_point (p_a obj) (p_b obj) (p_e obj) (p_cosNode obj) (p_sinNode obj)
             (p_cosInc obj) (p_sinInc obj) (solveKepler_E (p_meanAnomaly obj) (p_e obj))"
    unfolding animate_planetObjects
    using animatePlanet_position(1) by (simp add: keplerToWorld_def 2)
  have 6: "\<forall>obj \<in> set (cometObjects (animate ch s)).
         position (c_mesh obj) =
           orbitLine_point (c_a obj) (c_b obj) (c_e obj) (c_cosNode obj) (c_sinNode obj)
             (c_cosInc obj) (c_sinInc obj) (solveKepler_E (c_meanAnomaly obj) (c_e obj))"
    unfolding animate_cometObjects
    using animateComet_position(1) by (simp add: keplerCometToWorld_def 2)
  from 1 2 3 4 5 6 show ?thesis by blast
qed

theorem orbit_polyline_same_transform_witness:
  "(3::nat) < 256
   \<and> createOrbitLine 1 1 0 1 0 1 0 ! 3 = solveKepler_point ((real 3 / 256) * pi * 2) 1 1 0 1 0 1 0
   \<and> animatePlanet 800 exampleScene exampleJupiter \<in> set (planetObjects (animate 800 exampleScene))
   \<and> position (p_mesh (animatePlanet 800 exampleScene exampleJupiter)) =
       orbitLine_point 182.14 (182.14 * sqrt (1 - 0.049 * 0.049)) 0.049 1 0 1 0
         (solveKepler_E 0 0.049)
   \<and> animateComet 800 exampleScene exampleHalley \<in> set (cometObjects (animate 800 exampleScene))
   \<and> position (c_mesh (animateComet 800 exampleScene exampleHalley)) =
       orbitLine_point 624.19 (624.19 * sqrt (1 - 0.96714 * 0.96714)) 0.96714 1 0 1 0
         (solveKepler_E 0 0.96714)"
proof -
  have p: "animatePlanet 800 exampleScene exampleJupiter \<in> set (planetObjects (animate 800 exampleScene))"
    by (simp add: animate_planetObjects) (simp add: exampleScene_def)
  have c: "animateComet 800 exampleScene exampleHalley \<in> set (cometObjects (animate 800 exampleScene))"
    by (simp add: animate_cometObjects) (simp add: exampleScene_def)
  have pf: "p_a (animatePlanet 800 exampleScene exampleJupiter) = 182.14"
    "p_b (animatePlanet 800 exampleScene exampleJupiter) = 182.14 * sqrt (1 - 0.049 * 0.049)"
    "p_e (animatePlanet 800 exampleScene exampleJupiter) = 0.049"
    "p_cosNode (animatePlanet 800 exampleScene exampleJupiter) = 1"
    "p_sinNode (animatePlanet 800 exampleScene exampleJupiter) = 0"
    "p_cosInc (animatePlanet 800 exampleScene exampleJupiter) = 1"
    "p_sinInc (animatePlanet 800 exampleScene exampleJupiter) = 0"
    "p_meanAnomaly (animatePlanet 800 exampleScene exampleJupiter) = 0"
    by (simp_all add: animatePlanet_def Let_def exampleJupiter_def exampleScene_def)
  have cf: "c_a (animateComet 800 exampleScene exampleHalley) = 624.19"
    "c_b (animateComet 800 exampleScene exampleHalley) = 624.19 * sqrt (1 - 0.96714 * 0.96714)"
    "c_e (animateComet 800 exampleScene exampleHalley) = 0.96714"
    "c_cosNode (animateComet 800 exampleScene exampleHalley) = 1"
    "c_sinNode (animateComet 800 exampleScene exampleHalley) = 0"
    "c_cosInc (animateComet 800 exampleScene exampleHalley) = 1"
    "c_sinInc (animateComet 800 exampleScene exampleHalley) = 0"
    "c_meanAnomaly (animateComet 800 exampleScene exampleHalley) = 0"
    by (simp_all add: animateComet_def Let_def exampleHalley_def exampleScene_def)
  have k: "(3::nat) < 256" by simp
  have T: "(\<forall>i < 256. createOrbitLine 1 1 0 1 0 1 0 ! i =
         solveKepler_point ((real i / 256) * pi * 2) 1 1 0 1 0 1 0)
   \<and> (\<forall>obj \<in> set (planetObjects (animate 800 exampleScene)).
         position (p_mesh obj) =
           orbitLine_point (p_a obj) (p_b obj) (p_e obj) (p_cosNode obj) (p_sinNode obj)
             (p_cosInc obj) (p_sinInc obj) (solveKepler_E (p_meanAnomaly obj) (p_e obj)))
   \<and> (\<forall>obj \<in> set (cometObjects (animate 800 exampleScene)).
         position (c_mesh obj) =
           orbitLine_point (c_a obj) (c_b obj) (c_e obj) (c_cosNode obj) (c_sinNode obj)
             (c_cosInc obj) (c_sinInc obj) (solveKepler_E (c_meanAnomaly obj) (c_e obj)))"
    using orbit_polyline_same_transform [of 0 1 1 0 1 0 1 0 0 800 exampleScene] by blast
  have 1: "createOrbitLine 1 1 0 1 0 1 0 ! 3 = solveKepler_point ((real 3 / 256) * pi * 2) 1 1 0 1 0 1 0"
    using T k by blast
  have 2: "position (p_mesh (animatePlanet 800 exampleScene exampleJupiter)) =
       orbitLine_point 182.14 (182.14 * sqrt (1 - 0.049 * 0.049)) 0.049 1 0 1 0
         (solveKepler_E 0 0.049)"
    using T p pf by (metis (no_types, lifting))
  have 3: "position (c_mesh (animateComet 800 exampleScene exampleHalley)) =
       orbitLine_point 624.19 (624.19 * sqrt (1 - 0.96714 * 0.96714)) 0.96714 1 0 1 0
         (solveKepler_E 0 0.96714)"
    using T c cf by (metis (no_types, lifting))
  from k 1 p 2 c 3 show ?thesis by blast
qed


section \<open>Pointer and camera events\<close>

lemma v3_length_z: "v3_length (Vector3 0 0 z) = \<bar>z\<bar>"
  by (simp add: v3_length_def)

text \<open>
  C3 as stated fails for a drag: with a planet selected (its panel open) and a body hovered,
  the handler of the controls' \<open>start\<close> event, which is all that a rotate or pan drag runs,
  emits no close signal.
\<close>

theorem controls_start_emits_no_close:
  "selectedPlanet exampleApp \<noteq> None
   \<and> hoveredPlanet exampleScene \<noteq> None
   \<and> CloseInfo \<notin> set (fst (onControlsStart exampleScene))"
  by (simp add: exampleApp_def onPlanetSelected_def exampleScene_def onControlsStart_def)

text \<open>
  C3, as the code has it. The handler of the controls' \<open>start\<close> event (rotate, pan or zoom
  through OrbitControls) clears the hover and emits nothing; the canvas's wheel handler emits
  one close signal and its touch-start handler emits one when there are two or more contacts,
  whether or not a panel is open, and these two leave the component's state as it is; none of
  the three handlers emits a select event.
\<close>

theorem camera_start_handlers:
  "onControlsStart s = ([], s\<lparr>hoveredPlanet := None\<rparr>)
   \<and> hoveredPlanet (snd (onControlsStart s)) = None
   \<and> onCanvasZoom s = ([CloseInfo], s)
   \<and> (2 \<le> touches \<longrightarrow> onCanvasTouchStart touches s = ([CloseInfo], s))
   \<and> (touches < 2 \<longrightarrow> onCanvasTouchStart touches s = ([], s))
   \<and> PlanetSelected pl \<notin> set (fst (onControlsStart s))
   \<and> PlanetSelected pl \<notin> set (fst (onCanvasZoom s))
   \<and> PlanetSelected pl \<notin> set (fst (onCanvasTouchStart touches s))"
  by (cases "hoveredPlanet s") (simp_all add: onControlsStart_def onCanvasZoom_def onCanvasTouchStart_def)

theorem camera_start_handlers_witness:
  "(2::nat) \<le> 2 \<and> onCanvasTouchStart 2 exampleScene = ([CloseInfo], exampleScene)
   \<and> (1::nat) < 2 \<and> onCanvasTouchStart 1 exampleScene = ([], exampleScene)
   \<and> onControlsStart exampleScene = ([], exampleScene\<lparr>hoveredPlanet := None\<rparr>)"
  using camera_start_handlers [of exampleScene 2] camera_start_handlers [of exampleScene 1]
  by simp

text \<open>
  C4. When the nearest hit is the Oort-cloud proxy, a click emits nothing while the camera is
  at distance at most 1800 from the origin and emits the select event with the Oort-cloud
  record when it is farther; the click changes no state. A double-click on it emits nothing and
  changes nothing, so it starts no transition, wherever the camera is.
\<close>

theorem oort_click_gate:
  assumes "planet (userData h) = Some pl" and "is_oort_cloud pl"
  shows "(v3_length (camera_position s) \<le> 1800 \<longrightarrow> fst (onCanvasClick (h # rest) s) = [])
    \<and> (1800 < v3_length (camera_position s) \<longrightarrow>
          fst (onCanvasClick (h # rest) s) = [PlanetSelected pl])
    \<and> snd (onCanvasClick (h # rest) s) = s
    \<and> onCanvasDblClick (h # rest) s = Some ([], s)"
  using assms by (simp add: onCanvasClick_def onCanvasDblClick_def)

theorem oort_click_gate_witness:
  "planet (userData exampleOortSphere) = Some OORT_CLOUD_PLANET
   \<and> is_oort_cloud OORT_CLOUD_PLANET
   \<and> v3_length (camera_position exampleScene) \<le> 1800
   \<and> fst (onCanvasClick [exampleOortSphere] exampleScene) = []
   \<and> 1800 < v3_length (camera_position exampleSceneFar)
   \<and> fst (onCanvasClick [exampleOortSphere] exampleSceneFar) = [PlanetSelected OORT_CLOUD_PLANET]
   \<and> onCanvasDblClick [exampleOortSphere] exampleSceneFar = Some ([], exampleSceneFar)"
proof -
  have p: "planet (userData exampleOortSphere) = Some OORT_CLOUD_PLANET"
    by (simp add: exampleOortSphere_def)
  have o: "is_oort_cloud OORT_CLOUD_PLANET"
    by (simp add: OORT_CLOUD_PLANET_def)
  have near: "v3_length (camera_position exampleScene) \<le> 1800"
    by (simp add: exampleScene_def v3_length_z)
  have far: "1800 < v3_length (camera_position exampleSceneFar)"
    by (simp add: exampleSceneFar_def v3_length_z)
  show ?thesis
    using oort_click_gate [OF p o, of exampleScene "[]"]
      oort_click_gate [OF p o, of exampleSceneFar "[]"] p o near far
    by simp
qed


section \<open>Camera transition\<close>

lemma v3_length_sub_zero:
  "v3_length (v3_sub u v) = 0 \<longleftrightarrow> u = v"
proof -
  have "vx u = vx v \<and> vy u = vy v \<and> vz u = vz v \<longleftrightarrow> u = v"
    by (cases u, cases v) simp
  moreover have "v3_length (v3_sub u v) = 0 \<longleftrightarrow>
      (vx u - vx v) * (vx u - vx v) + (vy u - vy v) * (vy u - vy v)
        + (vz u - vz v) * (vz u - vz v) = 0"
    by (simp add: v3_length_def v3_sub_def)
  moreover have "(vx u - vx v) * (vx u - vx v) + (vy u - vy v) * (vy u - vy v)
        + (vz u - vz v) * (vz u - vz v) = 0 \<longleftrightarrow> vx u = vx v \<and> vy u = vy v \<and> vz u = vz v"
    by (simp add: add_nonneg_eq_0_iff)
  ultimately show ?thesis by simp
qed

lemma distance_after_normalize:
  assumes "cam \<noteq> target"
  shows "v3_distanceTo (v3_addScaledVector target (v3_normalize (v3_sub cam target)) z) target = \<bar>z\<bar>"
proof -
  define dx where "dx = vx cam - vx target"
  define dy where "dy = vy cam - vy target"
  define dz where "dz = vz cam - vz target"
  define S where "S = dx * dx + dy * dy + dz * dz"
  define L where "L = sqrt S"
  have Snn: "0 \<le> S" by (simp add: S_def)
  have Ldef: "v3_length (v3_sub cam target) = L"
    by (simp add: v3_length_def v3_sub_def L_def S_def dx_def dy_def dz_def)
  have Lne: "L \<noteq> 0" using assms v3_length_sub_zero [of cam target] Ldef by simp
  have LL: "L * L = S" using Snn by (simp add: L_def)
  have n: "v3_normalize (v3_sub cam target) = Vector3 (dx * (1 / L)) (dy * (1 / L)) (dz * (1 / L))"
    using Lne Ldef
    by (simp add: v3_normalize_def v3_divideScalar_def v3_multiplyScalar_def v3_sub_def
        dx_def dy_def dz_def)
  have sq: "(dx * (1 / L) * z) * (dx * (1 / L) * z) + (dy * (1 / L) * z) * (dy * (1 / L) * z)
      + (dz * (1 / L) * z) * (dz * (1 / L) * z) = z * z"
  proof -
    have "(dx * (1 / L) * z) * (dx * (1 / L) * z) + (dy * (1 / L) * z) * (dy * (1 / L) * z)
      + (dz * (1 / L) * z) * (dz * (1 / L) * z) = (S / (L * L)) * (z * z)"
      using Lne by (simp add: S_def field_simps)
    also have "\<dots> = z * z"
    proof -
      have "S \<noteq> 0" using Lne LL [symmetric] by simp
      then show ?thesis by (simp add: LL)
    qed
    finally show ?thesis .
  qed
  have "v3_distanceTo (v3_addScaledVector target (v3_normalize (v3_sub cam target)) z) target
      = sqrt ((dx * (1 / L) * z) * (dx * (1 / L) * z) + (dy * (1 / L) * z) * (dy * (1 / L) * z)
      + (dz * (1 / L) * z) * (dz * (1 / L) * z))"
    unfolding n by (simp add: v3_distanceTo_def v3_addScaledVector_def Let_def)
  also have "\<dots> = \<bar>z\<bar>" unfolding sq by simp
  finally show ?thesis .
qed

lemma v3_distanceTo_self: "v3_distanceTo u u = 0"
  by (simp add: v3_distanceTo_def)

text \<open>
  A proxy whose centre the camera occupies: the frame gives it the scale 0, so it has no
  extent a ray could meet, besides its sphere being front-side. The nearest hit a handler is
  given is therefore never a body at the camera's own position.
\<close>

lemma proxy_at_camera:
  "hit_position (p_hitMesh (animatePlanet ch s obj)) = camera_position s \<Longrightarrow>
     hit_scale (p_hitMesh (animatePlanet ch s obj)) = 0"
  "camera_position s = Vector3 0 0 0 \<Longrightarrow> hit_scale (animateSun ch s h) = 0"
  using animatePlanet_hit [of ch s obj] animateSun_hit [of ch s h]
  by (simp_all add: v3_distanceTo_self)

text \<open>One frame of a running transition, and what it depends on.\<close>

lemma animate_zoom_running:
  assumes "zoomAnim s = Some a" and "anim_t a + 0.04 < 1"
  shows "zoomAnim (animate ch s) = Some (a\<lparr>anim_t := anim_t a + 0.04\<rparr>)"
  using assms by (simp add: animate_def animateZoom_def zoomProgress_def Let_def)

lemma animate_zoom_done:
  assumes "zoomAnim s = Some a" and "1 \<le> anim_t a + 0.04"
  shows "zoomAnim (animate ch s) = None"
    and "controls_enabled (animate ch s)"
  using assms by (simp_all add: animate_def animateZoom_def zoomProgress_def Let_def)

lemma animate_zoom_only:
  "zoomAnim x = zoomAnim y \<Longrightarrow> zoomAnim (animate ch x) = zoomAnim (animate ch2 y)"
  "zoomAnim x = zoomAnim y \<Longrightarrow> controls_enabled x = controls_enabled y \<Longrightarrow>
     controls_enabled (animate ch x) = controls_enabled (animate ch2 y)"
  by (simp_all add: animate_def animateZoom_def Let_def split: option.splits)

lemma zoom_frames:
  assumes "zoomAnim s = Some a" and "anim_t a = 0"
  shows "k < 25 \<Longrightarrow> zoomAnim ((animate ch ^^ k) s) = Some (a\<lparr>anim_t := real k * 0.04\<rparr>)"
proof (induction k)
  case 0
  then show ?case using assms by simp
next
  case (Suc k)
  then have prev: "zoomAnim ((animate ch ^^ k) s) = Some (a\<lparr>anim_t := real k * 0.04\<rparr>)"
    by simp
  have lt: "anim_t (a\<lparr>anim_t := real k * 0.04\<rparr>) + 0.04 < 1" using Suc.prems by simp
  have "zoomAnim (animate ch ((animate ch ^^ k) s)) =
      Some ((a\<lparr>anim_t := real k * 0.04\<rparr>)\<lparr>anim_t := anim_t (a\<lparr>anim_t := real k * 0.04\<rparr>) + 0.04\<rparr>)"
    using prev lt by (rule animate_zoom_running)
  then show ?case by (simp add: algebra_simps)
qed

lemma zoom_finished:
  assumes "zoomAnim s = Some a" and "anim_t a = 0"
  shows "zoomAnim ((animate ch ^^ 25) s) = None"
    and "controls_enabled ((animate ch ^^ 25) s)"
proof -
  have prev: "zoomAnim ((animate ch ^^ 24) s) = Some (a\<lparr>anim_t := real 24 * 0.04\<rparr>)"
    using zoom_frames [OF assms, of 24 ch] by simp
  have zp: "1 \<le> anim_t (a\<lparr>anim_t := real 24 * 0.04\<rparr>) + 0.04"
    by simp
  have step: "(animate ch ^^ 25) s = animate ch ((animate ch ^^ 24) s)"
    by (simp add: eval_nat_numeral)
  show "zoomAnim ((animate ch ^^ 25) s) = None"
    unfolding step using animate_zoom_done(1) [OF prev zp] .
  show "controls_enabled ((animate ch ^^ 25) s)"
    unfolding step using animate_zoom_done(2) [OF prev zp] .
qed

lemma VISUAL_SIZES_pos: "VISUAL_SIZES n = Some r \<Longrightarrow> 0 < r"
  by (auto simp: VISUAL_SIZES_def split: if_splits)

lemma visualRadius_pos: "visualRadius pl = Some vr \<Longrightarrow> 0 < vr"
  using VISUAL_SIZES_pos [of "name pl"]
  by (cases "VISUAL_SIZES (name pl)") (auto simp: visualRadius_def VISUAL_SIZES_or_def split: if_splits)

lemma dblclick_zoomDist:
  assumes "visualRadius pl = Some vr" and "name pl \<in> dom VISUAL_SIZES \<or> 11 \<le> m"
  shows "\<exists>visR. VISUAL_SIZES_or (name pl) 2 = Some visR
      \<and> max (visR * 8) (m + 5) = max (vr * 8) (m + 5)"
  using assms
  by (cases "VISUAL_SIZES (name pl)") (auto simp: visualRadius_def VISUAL_SIZES_or_def split: if_splits)

text \<open>A planet whose name \<open>VISUAL_SIZES\<close> only inherits has no visual radius that is a number,
  and a double-click on it leaves the numbers of the model.\<close>

lemma dblclick_inherited_name:
  assumes "planet (userData h) = Some pl"
    and "\<not> is_oort_cloud pl" and "\<not> is_asteroid_belt pl" and "\<not> is_comet pl"
    and "name pl \<in> set OBJECT_PROTOTYPE_KEYS"
  shows "visualRadius pl = None" and "onCanvasDblClick (h # rest) s = None"
proof -
  have "VISUAL_SIZES (name pl) = None"
    using assms(5) by (auto simp: OBJECT_PROTOTYPE_KEYS_def VISUAL_SIZES_def)
  then have n: "VISUAL_SIZES_or (name pl) d = None" for d
    using assms(5) by (simp add: VISUAL_SIZES_or_def)
  show "visualRadius pl = None" by (simp add: visualRadius_def n)
  show "onCanvasDblClick (h # rest) s = None"
    using assms(1-4) by (simp add: onCanvasDblClick_def Let_def n)
qed

text \<open>
  C5. A double-click whose nearest hit is a planet (not the Oort cloud, the belt or a comet)
  emits the close signal and creates a transition with progress 0, from the camera's position
  towards the body's, whose \<open>toCam\<close> lies at distance \<open>max (visualRadius * 8) (minDistance + 5)\<close>
  from the body's position. On frame \<open>k < 25\<close> after it the progress is \<open>0.04 k\<close>, so it never
  decreases; the 25th frame takes it from 0.96 to exactly 1, discards the transition and
  enables the controls again. The last two parts say the same of one frame of any running
  transition in any state: the progress grows by 0.04 while that stays below 1, and the frame
  on which it would reach or pass 1 ends the transition. These parts are about the transition
  record and the enabled flag; what the frame does with them depends on the transition record
  alone (\<open>animate_zoom_only\<close>), and \<open>controls.update()\<close> and the renderer, which end every
  frame, write neither.

  What is assumed of the input is what the handler can be given. The camera is not at the
  hit body's own position: the handler's hits come from a ray cast from the camera, and a hit
  sphere is front-side and, after a frame with the camera at its centre, of scale 0
  (\<open>proxy_at_camera\<close>). The planet's visual radius is a number \<open>vr\<close>: the planets' names
  come from the catalogue, none of them a member of \<open>Object.prototype\<close>
  (\<open>dblclick_inherited_name\<close> is the other case). And either the name has an entry in
  \<open>VISUAL_SIZES\<close> or \<open>minDistance\<close> is at least 11: for a name without an entry the handler
  takes the radius 2 where \<open>buildSolarSystem\<close> took 1, and the two distances agree from
  \<open>minDistance = 11\<close> on; the component sets \<open>minDistance\<close> to 15 once and never writes it
  again.
\<close>

theorem dblclick_camera_transition:
  assumes "planet (userData h) = Some pl"
    and "\<not> is_oort_cloud pl" and "\<not> is_asteroid_belt pl" and "\<not> is_comet pl"
    and "camera_position s \<noteq> hit_position h"
    and "visualRadius pl = Some vr"
    and "name pl \<in> dom VISUAL_SIZES \<or> 11 \<le> controls_minDistance s"
  shows "(\<exists>s1 a. onCanvasDblClick (h # rest) s = Some ([CloseInfo], s1)
      \<and> zoomAnim s1 = Some a
      \<and> anim_t a = 0
      \<and> fromCam a = camera_position s
      \<and> toTarget a = hit_position h
      \<and> v3_distanceTo (toCam a) (hit_position h) = max (vr * 8) (controls_minDistance s + 5)
      \<and> (\<forall>k < 25. zoomAnim ((animate ch ^^ k) s1) = Some (a\<lparr>anim_t := real k * 0.04\<rparr>))
      \<and> zoomProgress (24 * 0.04) = 1
      \<and> zoomAnim ((animate ch ^^ 25) s1) = None
      \<and> controls_enabled ((animate ch ^^ 25) s1))
    \<and> (\<forall>x b. zoomAnim x = Some b \<and> anim_t b + 0.04 < 1 \<longrightarrow>
          zoomAnim (animate ch x) = Some (b\<lparr>anim_t := anim_t b + 0.04\<rparr>))
    \<and> (\<forall>x b. zoomAnim x = Some b \<and> 1 \<le> anim_t b + 0.04 \<longrightarrow>
          zoomAnim (animate ch x) = None \<and> controls_enabled (animate ch x))"
proof -
  define zd where "zd = max (vr * 8) (controls_minDistance s + 5)"
  define a where "a =
    \<lparr>fromCam = camera_position s,
     toCam = v3_addScaledVector (hit_position h)
               (v3_normalize (v3_sub (camera_position s) (hit_position h))) zd,
     fromTarget = controls_target s, toTarget = hit_position h, anim_t = 0\<rparr>"
  define s1 where "s1 = s\<lparr>hoveredPlanet := None, controls_enabled := False, zoomAnim := Some a\<rparr>"
  obtain visR where visR: "VISUAL_SIZES_or (name pl) 2 = Some visR"
    "max (visR * 8) (controls_minDistance s + 5) = zd"
    using dblclick_zoomDist [OF assms(6,7)] unfolding zd_def by blast
  have dc: "onCanvasDblClick (h # rest) s = Some ([CloseInfo], s1)"
    using assms(1-4) visR by (simp add: onCanvasDblClick_def Let_def a_def s1_def)
  have za: "zoomAnim s1 = Some a" by (simp add: s1_def)
  have t0: "anim_t a = 0" by (simp add: a_def)
  have zdpos: "0 < zd"
    using visualRadius_pos [OF assms(6)] by (simp add: zd_def max_def)
  have d: "v3_distanceTo (toCam a) (hit_position h) = zd"
    using distance_after_normalize [OF assms(5), of zd] zdpos by (simp add: a_def)
  have fr: "\<forall>k < 25. zoomAnim ((animate ch ^^ k) s1) = Some (a\<lparr>anim_t := real k * 0.04\<rparr>)"
    using zoom_frames [OF za t0] by blast
  have last: "zoomProgress (24 * 0.04) = 1"
    by (simp add: zoomProgress_def)
  have first: "\<exists>s1 a. onCanvasDblClick (h # rest) s = Some ([CloseInfo], s1)
      \<and> zoomAnim s1 = Some a
      \<and> anim_t a = 0
      \<and> fromCam a = camera_position s
      \<and> toTarget a = hit_position h
      \<and> v3_distanceTo (toCam a) (hit_position h) = max (vr * 8) (controls_minDistance s + 5)
      \<and> (\<forall>k < 25. zoomAnim ((animate ch ^^ k) s1) = Some (a\<lparr>anim_t := real k * 0.04\<rparr>))
      \<and> zoomProgress (24 * 0.04) = 1
      \<and> zoomAnim ((animate ch ^^ 25) s1) = None
      \<and> controls_enabled ((animate ch ^^ 25) s1)"
    using dc za t0 d fr last zoom_finished [OF za t0, of ch]
    by (intro exI [of _ s1] exI [of _ a]) (simp add: a_def zd_def)
  have run: "\<forall>x b. zoomAnim x = Some b \<and> anim_t b + 0.04 < 1 \<longrightarrow>
          zoomAnim (animate ch x) = Some (b\<lparr>anim_t := anim_t b + 0.04\<rparr>)"
    using animate_zoom_running by blast
  have fin: "\<forall>x b. zoomAnim x = Some b \<and> 1 \<le> anim_t b + 0.04 \<longrightarrow>
          zoomAnim (animate ch x) = None \<and> controls_enabled (animate ch x)"
    using animate_zoom_done by blast
  from first run fin show ?thesis by blast
qed

theorem dblclick_camera_transition_witness:
  "planet (userData (p_hitMesh exampleJupiter)) = Some JUPITER
   \<and> \<not> is_oort_cloud JUPITER \<and> \<not> is_asteroid_belt JUPITER \<and> \<not> is_comet JUPITER
   \<and> camera_position exampleScene \<noteq> hit_position (p_hitMesh exampleJupiter)
   \<and> visualRadius JUPITER = Some 3.2
   \<and> name JUPITER \<in> dom VISUAL_SIZES
   \<and> (\<exists>s1 a. onCanvasDblClick [p_hitMesh exampleJupiter] exampleScene = Some ([CloseInfo], s1)
        \<and> zoomAnim s1 = Some a
        \<and> anim_t a = 0
        \<and> v3_distanceTo (toCam a) (hit_position (p_hitMesh exampleJupiter)) = 25.6
        \<and> zoomAnim ((animate 800 ^^ 24) s1) = Some (a\<lparr>anim_t := 0.96\<rparr>)
        \<and> zoomAnim ((animate 800 ^^ 25) s1) = None
        \<and> zoomAnim (animate 800 ((animate 800 ^^ 24) s1)) = None
        \<and> zoomAnim (animate 800 s1) = Some (a\<lparr>anim_t := 0.04\<rparr>))"
proof -
  have p: "planet (userData (p_hitMesh exampleJupiter)) = Some JUPITER"
    by (simp add: exampleJupiter_def)
  have f: "\<not> is_oort_cloud JUPITER" "\<not> is_asteroid_belt JUPITER" "\<not> is_comet JUPITER"
    by (simp_all add: JUPITER_def)
  have c: "camera_position exampleScene \<noteq> hit_position (p_hitMesh exampleJupiter)"
    by (simp add: exampleScene_def exampleJupiter_def)
  have v: "visualRadius JUPITER = Some 3.2"
    by (simp add: visualRadius_def VISUAL_SIZES_or_def JUPITER_def VISUAL_SIZES_def)
  have n: "name JUPITER \<in> dom VISUAL_SIZES"
    by (simp add: JUPITER_def VISUAL_SIZES_def)
  have m: "max (3.2 * 8) (controls_minDistance exampleScene + 5) = (25.6 :: real)"
    by (simp add: exampleScene_def)
  have k: "(24::nat) < 25" by simp
  note T = dblclick_camera_transition [OF p f c v disjI1 [OF n], of "[]" 800]
  from T obtain s1 a where a:
    "onCanvasDblClick [p_hitMesh exampleJupiter] exampleScene = Some ([CloseInfo], s1)"
    "zoomAnim s1 = Some a"
    "anim_t a = 0"
    "v3_distanceTo (toCam a) (hit_position (p_hitMesh exampleJupiter)) =
          max (3.2 * 8) (controls_minDistance exampleScene + 5)"
    "\<forall>k < 25. zoomAnim ((animate 800 ^^ k) s1) = Some (a\<lparr>anim_t := real k * 0.04\<rparr>)"
    "zoomAnim ((animate 800 ^^ 25) s1) = None"
    by blast
  from T have run: "\<And>x b. zoomAnim x = Some b \<Longrightarrow> anim_t b + 0.04 < 1 \<Longrightarrow>
          zoomAnim (animate 800 x) = Some (b\<lparr>anim_t := anim_t b + 0.04\<rparr>)"
    and fin: "\<And>x b. zoomAnim x = Some b \<Longrightarrow> 1 \<le> anim_t b + 0.04 \<Longrightarrow>
          zoomAnim (animate 800 x) = None"
    by blast+
  have f24: "zoomAnim ((animate 800 ^^ 24) s1) = Some (a\<lparr>anim_t := 0.96\<rparr>)"
    using a(5) k by simp
  have l: "zoomAnim (animate 800 ((animate 800 ^^ 24) s1)) = None"
    using fin [OF f24] by simp
  have r: "zoomAnim (animate 800 s1) = Some (a\<lparr>anim_t := 0.04\<rparr>)"
    using run [OF a(2)] a(3) by simp
  from a m f24 l r have "\<exists>s1 a. onCanvasDblClick [p_hitMesh exampleJupiter] exampleScene = Some ([CloseInfo], s1)
        \<and> zoomAnim s1 = Some a
        \<and> anim_t a = 0
        \<and> v3_distanceTo (toCam a) (hit_position (p_hitMesh exampleJupiter)) = 25.6
        \<and> zoomAnim ((animate 800 ^^ 24) s1) = Some (a\<lparr>anim_t := 0.96\<rparr>)
        \<and> zoomAnim ((animate 800 ^^ 25) s1) = None
        \<and> zoomAnim (animate 800 ((animate 800 ^^ 24) s1)) = None
        \<and> zoomAnim (animate 800 s1) = Some (a\<lparr>anim_t := 0.04\<rparr>)"
    by (intro exI [of _ s1] exI [of _ a]) simp
  with p f c v n show ?thesis by blast
qed

end
